theory Spec2Isabelle
  imports Complex_Main
begin

section \<open>Python values of \<^verbatim>\<open>main_superpixels_gcn.py\<close>\<close>

text \<open>
  The script drives a training loop around library calls. The model keeps the script's
  own control flow and data, and makes explicit what the libraries do to it:
  exceptions are values of \<open>py_error\<close>, the checkpoint directory is a value that
  \<^verbatim>\<open>torch.save\<close>, \<^verbatim>\<open>glob.glob\<close> and \<^verbatim>\<open>os.remove\<close> read and change, floats are
  read as real numbers, and the wall clock and the train and evaluate steps are inputs.
\<close>

datatype py_error =
    ValueError          \<comment> \<open>\<^verbatim>\<open>int(...)\<close> on a string that is not an integer literal\<close>
  | FileNotFoundError   \<comment> \<open>\<^verbatim>\<open>os.remove\<close> of a path that does not exist\<close>
  | PermissionError     \<comment> \<open>\<^verbatim>\<open>os.remove\<close> refused by the operating system\<close>
  | StepError           \<comment> \<open>an exception out of \<^verbatim>\<open>train_epoch\<close> or \<^verbatim>\<open>evaluate_network\<close>\<close>

subsection \<open>Strings: \<^verbatim>\<open>str.split\<close>, \<^verbatim>\<open>str(int)\<close>, \<^verbatim>\<open>int(str)\<close>\<close>

text \<open>\<^verbatim>\<open>s.split(c)\<close> for a one-character separator: never empty, one more piece than
  there are separators.\<close>

fun split_on :: "char \<Rightarrow> string \<Rightarrow> string list" where
  "split_on c [] = [[]]"
| "split_on c (x # xs) =
     (if x = c then [] # split_on c xs
      else (x # hd (split_on c xs)) # tl (split_on c xs))"

definition digit_char :: "nat \<Rightarrow> char" where
  "digit_char k = ''0123456789'' ! k"

definition is_digit :: "char \<Rightarrow> bool" where
  "is_digit c = (48 \<le> (of_char c :: nat) \<and> (of_char c :: nat) \<le> 57)"

definition digit_val :: "char \<Rightarrow> nat" where
  "digit_val c = of_char c - 48"

text \<open>\<^verbatim>\<open>str(n)\<close>, as \<^verbatim>\<open>'{}'.format(n)\<close> prints a non-negative \<^verbatim>\<open>int\<close>.\<close>

fun str_nat :: "nat \<Rightarrow> string" where
  "str_nat n = (if n < 10 then [digit_char n] else str_nat (n div 10) @ [digit_char (n mod 10)])"

declare str_nat.simps [simp del]

definition nat_of_digits :: "string \<Rightarrow> nat" where
  "nat_of_digits ds = foldl (\<lambda>a c. 10 * a + digit_val c) 0 ds"

text \<open>The ASCII characters \<^verbatim>\<open>str.strip()\<close> and \<^verbatim>\<open>int()\<close> treat as white space:
  tab, line feed, vertical tab, form feed, carriage return, the four separators
  \<^verbatim>\<open>0x1c\<close> to \<^verbatim>\<open>0x1f\<close>, and the blank.\<close>

definition is_space :: "char \<Rightarrow> bool" where
  "is_space c = ((9 \<le> (of_char c :: nat) \<and> (of_char c :: nat) \<le> 13)
                \<or> (28 \<le> (of_char c :: nat) \<and> (of_char c :: nat) \<le> 32))"

definition strip :: "string \<Rightarrow> string" where
  "strip s = rev (dropWhile is_space (rev (dropWhile is_space s)))"

text \<open>\<^verbatim>\<open>int(s)\<close> on an ASCII string: white space around, one optional sign, then at
  least one digit. (Python also allows single underscores between digits; the strings
  parsed here are pieces of a split at underscores and contain none.)\<close>

definition py_int :: "string \<Rightarrow> py_error + int" where
  "py_int s =
     (let t = strip s;
          neg = (t \<noteq> [] \<and> hd t = CHR ''-'');
          ds = (if t \<noteq> [] \<and> (hd t = CHR ''-'' \<or> hd t = CHR ''+'') then tl t else t)
      in if ds \<noteq> [] \<and> list_all is_digit ds
         then Inr (if neg then - int (nat_of_digits ds) else int (nat_of_digits ds))
         else Inl ValueError)"

subsection \<open>The checkpoint directory\<close>

text \<open>
  The contents of \<^verbatim>\<open>root_ckpt_dir\<close>: the names in it, in the order the operating
  system lists them, and the names whose removal the operating system refuses.
\<close>

record ckpt_dir =
  entries :: "string list"
  locked :: "string set"

text \<open>\<^verbatim>\<open>'epoch_{}.pkl'.format(epoch)\<close>\<close>

definition ckpt_name :: "nat \<Rightarrow> string" where
  "ckpt_name epoch = ''epoch_'' @ str_nat epoch @ ''.pkl''"

text \<open>\<^verbatim>\<open>torch.save(model.state_dict(), os.path.join(root_ckpt_dir, name))\<close>: the file
  is created, or overwritten when it is there.\<close>

definition torch_save :: "ckpt_dir \<Rightarrow> string \<Rightarrow> ckpt_dir" where
  "torch_save d name = (if name \<in> set (entries d) then d else d\<lparr>entries := entries d @ [name]\<rparr>)"

text \<open>The pattern \<^verbatim>\<open>*.pkl\<close>: the name ends in \<^verbatim>\<open>.pkl\<close> and, as \<^verbatim>\<open>glob\<close> skips
  hidden files, does not begin with a dot.\<close>

definition pkl_match :: "string \<Rightarrow> bool" where
  "pkl_match name = (take 4 (rev name) = rev ''.pkl'' \<and> hd name \<noteq> CHR ''.'')"

text \<open>
  \<^verbatim>\<open>glob\<close> reads the whole of its argument as a pattern, the directory part too. A
  directory name is taken as it is written when it has none of the characters \<^verbatim>\<open>*\<close>,
  \<^verbatim>\<open>?\<close> and \<^verbatim>\<open>[\<close>; and \<^verbatim>\<open>root_ckpt_dir + '/*.pkl'\<close> names the same directory as
  \<^verbatim>\<open>os.path.join(root_ckpt_dir, ...)\<close> when \<^verbatim>\<open>root_ckpt_dir\<close> is not empty.
\<close>

definition literal_dir :: "string \<Rightarrow> bool" where
  "literal_dir root_ckpt_dir =
     (root_ckpt_dir \<noteq> [] \<and> CHR ''*'' \<notin> set root_ckpt_dir
      \<and> CHR ''?'' \<notin> set root_ckpt_dir \<and> CHR ''['' \<notin> set root_ckpt_dir)"

text \<open>\<^verbatim>\<open>glob.glob(root_ckpt_dir + '/*.pkl')\<close> for a directory name that is
  \<open>literal_dir\<close>: the matching names of the directory, each with the directory in
  front. For another name \<^verbatim>\<open>glob\<close> lists what the pattern finds, in other directories
  or nowhere, which this definition does not follow. (For a name that ends in a slash
  \<^verbatim>\<open>glob\<close> writes one slash where this writes two; the files are the same.)\<close>

definition glob_pkl :: "string \<Rightarrow> ckpt_dir \<Rightarrow> string list" where
  "glob_pkl root_ckpt_dir d = map (\<lambda>name. root_ckpt_dir @ ''/'' @ name) (filter pkl_match (entries d))"

definition entry_of :: "string \<Rightarrow> string \<Rightarrow> string option" where
  "entry_of root_ckpt_dir file =
     (if take (length root_ckpt_dir + 1) file = root_ckpt_dir @ ''/'' then Some (drop (length root_ckpt_dir + 1) file) else None)"

text \<open>\<^verbatim>\<open>os.remove(file)\<close>\<close>

definition os_remove :: "string \<Rightarrow> ckpt_dir \<Rightarrow> string \<Rightarrow> py_error + ckpt_dir" where
  "os_remove root_ckpt_dir d file =
     (case entry_of root_ckpt_dir file of
        None \<Rightarrow> Inl FileNotFoundError
      | Some name \<Rightarrow>
          if name \<notin> set (entries d) then Inl FileNotFoundError
          else if name \<in> locked d then Inl PermissionError
          else Inr (d\<lparr>entries := filter (\<lambda>n. n \<noteq> name) (entries d)\<rparr>))"

text \<open>\<^verbatim>\<open>int(file.split('_')[-1].split('.')[0])\<close>\<close>

definition parse_epoch :: "string \<Rightarrow> py_error + int" where
  "parse_epoch file = py_int (hd (split_on (CHR ''.'') (last (split_on (CHR ''_'') file))))"

text \<open>
  The loop of \<^verbatim>\<open>save_checkpoint\<close> over the files \<^verbatim>\<open>glob\<close> returned. An exception
  leaves the loop at once: the directory is as the removals before it left it.
\<close>

fun prune :: "string \<Rightarrow> nat \<Rightarrow> string list \<Rightarrow> ckpt_dir \<Rightarrow> ckpt_dir \<times> py_error option" where
  "prune root_ckpt_dir epoch [] d = (d, None)"
| "prune root_ckpt_dir epoch (file # files) d =
     (case parse_epoch file of
        Inl err \<Rightarrow> (d, Some err)
      | Inr n \<Rightarrow>
          if n < int epoch - 1
          then (case os_remove root_ckpt_dir d file of
                  Inl err \<Rightarrow> (d, Some err)
                | Inr d' \<Rightarrow> prune root_ckpt_dir epoch files d')
          else prune root_ckpt_dir epoch files d)"

definition save_checkpoint :: "string \<Rightarrow> nat \<Rightarrow> ckpt_dir \<Rightarrow> ckpt_dir \<times> py_error option" where
  "save_checkpoint root_ckpt_dir epoch d =
     (let d1 = torch_save d (ckpt_name epoch)
      in prune root_ckpt_dir epoch (glob_pkl root_ckpt_dir d1) d1)"


section \<open>The training loop\<close>

subsection \<open>Parameters and the outside world\<close>

text \<open>The dictionary \<^verbatim>\<open>params\<close> of \<^verbatim>\<open>main\<close>. The counts \<^verbatim>\<open>epochs\<close> and
  \<^verbatim>\<open>lr_schedule_patience\<close> are natural numbers.\<close>

record params =
  seed :: int
  epochs :: nat
  batch_size :: nat
  init_lr :: real
  lr_reduce_factor :: real
  lr_schedule_patience :: nat
  min_lr :: real
  weight_decay :: real
  print_epoch_interval :: nat
  max_time :: real

text \<open>What one epoch's calls of \<^verbatim>\<open>train_epoch\<close> and \<^verbatim>\<open>evaluate_network\<close> return
  (lines 99 to 101).\<close>

record epoch_metrics =
  train_loss :: real
  train_acc :: real
  val_loss :: real
  val_acc :: real
  test_loss :: real
  test_acc :: real

text \<open>The four readings of \<^verbatim>\<open>time.time()\<close> in one epoch: lines 95, 117, 119 and 126.\<close>

record epoch_clock =
  t_start :: real
  t_end :: real
  t_print :: real
  t_check :: real

text \<open>
  Everything the loop takes from outside: the clock reading \<open>t0\<close> of line 92, for each
  epoch the result of its three steps (or the exception one of them raises) and its clock
  readings, the two accuracies of the final evaluation of lines 132 and 133 (or its
  exception), and the clock reading of line 136.
\<close>

record world =
  t0 :: real
  steps :: "nat \<Rightarrow> py_error + epoch_metrics"
  clock :: "nat \<Rightarrow> epoch_clock"
  final_evals :: "py_error + real \<times> real"
  t_final :: real

subsection \<open>The scheduler\<close>

text \<open>The learning rate is \<^verbatim>\<open>optimizer.param_groups[0]['lr']\<close>: the script sets it to
  \<^verbatim>\<open>init_lr\<close> (line 75), reads it at lines 115, 119 and 123, and only the
  scheduler's step changes it.\<close>

record sched_state =
  best_loss :: "real option"  \<comment> \<open>\<open>None\<close> is the initial plus infinity\<close>
  bad_epochs :: nat
  learning_rate :: real

text \<open>Modelled from the spec: the step of the plateau scheduler (section 4.2, the
  contract \<open>observe\<close>). The script builds the scheduler at lines 76 and 77 as the
  library's \<^verbatim>\<open>ReduceLROnPlateau\<close> with \<^verbatim>\<open>mode='min'\<close>, the factor and the patience
  of \<^verbatim>\<open>params\<close>, and steps it at line 103; the class is library code and not among
  the sources. The spec's policy: a strictly smaller loss becomes the best loss and
  clears the counter; any other loss counts one bad epoch, and a count above the patience
  multiplies the learning rate by the factor and clears the counter.\<close>

definition observe :: "real \<Rightarrow> nat \<Rightarrow> sched_state \<Rightarrow> real \<Rightarrow> sched_state" where
  "observe lrReduceFactor schedulePatience s validationLoss =
     (if (case best_loss s of None \<Rightarrow> True | Some b \<Rightarrow> validationLoss < b)
      then s\<lparr>best_loss := Some validationLoss, bad_epochs := 0\<rparr>
      else if bad_epochs s + 1 > schedulePatience
           then s\<lparr>bad_epochs := 0, learning_rate := learning_rate s * lrReduceFactor\<rparr>
           else s\<lparr>bad_epochs := bad_epochs s + 1\<rparr>)"

subsection \<open>The state of the loop\<close>

text \<open>What \<^verbatim>\<open>Tools.print\<close> is given, message by message.\<close>

datatype msg =
    StartEpoch nat
  | EpochLine real real real real real real real real
      \<comment> \<open>time, lr, loss of train, val, test, accuracy of train, val, test (line 118)\<close>
  | LrEqualToMinLr
  | MaxTimeElapsed real
  | TestAccuracy real
  | TrainAccuracy real
  | TotalTimeTaken real
  | AvgTimePerEpoch "real option"  \<comment> \<open>\<^verbatim>\<open>np.mean\<close> of no times is not a number\<close>

record loop_state =
  sched :: sched_state
  ckpts :: ckpt_dir
  writer :: "(string \<times> real \<times> nat) list"  \<comment> \<open>\<^verbatim>\<open>add_scalar(tag, value, step)\<close>, in order\<close>
  console :: "msg list"
  per_epoch_time :: "real list"
  epoch_train_losses :: "real list"
  epoch_val_losses :: "real list"
  epoch_train_accs :: "real list"
  epoch_val_accs :: "real list"

definition init_state :: "params \<Rightarrow> ckpt_dir \<Rightarrow> loop_state" where
  "init_state p d =
     \<lparr>sched = \<lparr>best_loss = None, bad_epochs = 0, learning_rate = init_lr p\<rparr>,
      ckpts = d, writer = [], console = [], per_epoch_time = [],
      epoch_train_losses = [], epoch_val_losses = [], epoch_train_accs = [],
      epoch_val_accs = []\<rparr>"

text \<open>Lines 106 to 120: the four lists, the five scalars of the writer, the epoch's
  time and the printed line.\<close>

definition record_epoch :: "world \<Rightarrow> nat \<Rightarrow> epoch_metrics \<Rightarrow> loop_state \<Rightarrow> loop_state" where
  "record_epoch w epoch m st =
     st\<lparr>epoch_train_losses := epoch_train_losses st @ [train_loss m],
        epoch_val_losses := epoch_val_losses st @ [val_loss m],
        epoch_train_accs := epoch_train_accs st @ [train_acc m],
        epoch_val_accs := epoch_val_accs st @ [val_acc m],
        writer := writer st @
          [(''train/_loss'', train_loss m, epoch),
           (''val/_loss'', val_loss m, epoch),
           (''train/_acc'', train_acc m, epoch),
           (''val/_acc'', val_acc m, epoch),
           (''learning_rate'', learning_rate (sched st), epoch)],
        per_epoch_time := per_epoch_time st @ [t_end (clock w epoch) - t_start (clock w epoch)],
        console := console st @
          [EpochLine (t_print (clock w epoch) - t_start (clock w epoch))
             (learning_rate (sched st)) (train_loss m) (val_loss m) (test_loss m)
             (train_acc m) (val_acc m) (test_acc m)]\<rparr>"

text \<open>
  Lines 95 to 120, one pass of the loop's body before the stopping tests. An exception
  of a step or of \<^verbatim>\<open>save_checkpoint\<close> ends the pass where it is raised; the state is
  returned as the exception found it.
\<close>

definition epoch_body ::
  "params \<Rightarrow> world \<Rightarrow> string \<Rightarrow> nat \<Rightarrow> loop_state \<Rightarrow> loop_state \<times> py_error option" where
  "epoch_body p w root_ckpt_dir epoch st =
     (let st1 = st\<lparr>console := console st @ [StartEpoch epoch]\<rparr> in
      case steps w epoch of
        Inl err \<Rightarrow> (st1, Some err)
      | Inr m \<Rightarrow>
          (let st2 = st1\<lparr>sched := observe (lr_reduce_factor p) (lr_schedule_patience p)
                                    (sched st1) (val_loss m)\<rparr>;
               saved = save_checkpoint root_ckpt_dir epoch (ckpts st2);
               st3 = st2\<lparr>ckpts := fst saved\<rparr>
           in (case snd saved of
                 Some err \<Rightarrow> (st3, Some err)
               | None \<Rightarrow> (record_epoch w epoch m st3, None))))"

text \<open>How the loop ends: by one of its two \<^verbatim>\<open>break\<close>s, by the end of
  \<^verbatim>\<open>range(params['epochs'])\<close>, or by an exception.\<close>

datatype stop_reason = Converged | Timeout | MaxEpochs

datatype outcome = Stopped stop_reason | Raised py_error

text \<open>The \<^verbatim>\<open>for\<close> loop of lines 94 to 130 over the epochs still to run.\<close>

fun training_loop ::
  "params \<Rightarrow> world \<Rightarrow> string \<Rightarrow> nat list \<Rightarrow> loop_state \<Rightarrow> loop_state \<times> outcome" where
  "training_loop p w root_ckpt_dir [] st = (st, Stopped MaxEpochs)"
| "training_loop p w root_ckpt_dir (epoch # rest) st =
     (case epoch_body p w root_ckpt_dir epoch st of
        (st', Some err) \<Rightarrow> (st', Raised err)
      | (st', None) \<Rightarrow>
          if learning_rate (sched st') < min_lr p
          then (st'\<lparr>console := console st' @ [LrEqualToMinLr]\<rparr>, Stopped Converged)
          else if t_check (clock w epoch) - t0 w > max_time p * 3600
          then (st'\<lparr>console := console st' @ [MaxTimeElapsed (max_time p)]\<rparr>, Stopped Timeout)
          else training_loop p w root_ckpt_dir rest st')"

text \<open>Lines 132 to 137: the final evaluation and the summary. (The closing of the
  writer at line 139 changes nothing that the state keeps.)\<close>

definition finalize :: "world \<Rightarrow> loop_state \<Rightarrow> stop_reason \<Rightarrow> loop_state \<times> outcome" where
  "finalize w st r =
     (case final_evals w of
        Inl err \<Rightarrow> (st, Raised err)
      | Inr (test_acc', train_acc') \<Rightarrow>
          (st\<lparr>console := console st @
             [TestAccuracy test_acc', TrainAccuracy train_acc',
              TotalTimeTaken (t_final w - t0 w),
              AvgTimePerEpoch (if per_epoch_time st = [] then None
                 else Some (sum_list (per_epoch_time st) / real (length (per_epoch_time st))))]\<rparr>,
           Stopped r))"

text \<open>\<^verbatim>\<open>train_val_pipeline\<close> from line 92 on, started on the checkpoint directory
  \<open>d\<close>.\<close>

definition train_val_pipeline ::
  "params \<Rightarrow> world \<Rightarrow> string \<Rightarrow> ckpt_dir \<Rightarrow> loop_state \<times> outcome" where
  "train_val_pipeline p w root_ckpt_dir d =
     (case training_loop p w root_ckpt_dir [0..<epochs p] (init_state p d) of
        (st, Raised err) \<Rightarrow> (st, Raised err)
      | (st, Stopped r) \<Rightarrow> finalize w st r)"

text \<open>The parameters \<^verbatim>\<open>main\<close> sets at lines 149 to 160.\<close>

definition main_params :: "nat \<Rightarrow> params" where
  "main_params bs =
     \<lparr>seed = 41, epochs = 1000, batch_size = bs, init_lr = 1 / 1000,
      lr_reduce_factor = 1 / 2, lr_schedule_patience = 5, min_lr = 1 / 100000,
      weight_decay = 0, print_epoch_interval = 5, max_time = 48\<rparr>"


section \<open>Notions used to state the properties\<close>

text \<open>A new run directory: nothing in it, and nothing that cannot be removed.\<close>

definition fresh_dir :: ckpt_dir where
  "fresh_dir = \<lparr>entries = [], locked = {}\<rparr>"

text \<open>The loop calls \<^verbatim>\<open>save_checkpoint\<close> once in each epoch, for the epochs
  \<open>0, 1, 2, \<dots>\<close> in turn (line 104). \<open>saves root_ckpt_dir n d\<close> is the directory after
  the calls of the first \<open>n\<close> epochs, the epochs \<open>0\<close> to \<open>n - 1\<close>, started on \<open>d\<close>.\<close>

fun saves :: "string \<Rightarrow> nat \<Rightarrow> ckpt_dir \<Rightarrow> ckpt_dir \<times> py_error option" where
  "saves root_ckpt_dir 0 d = (d, None)"
| "saves root_ckpt_dir (Suc n) d =
     (case saves root_ckpt_dir n d of
        (d', Some err) \<Rightarrow> (d', Some err)
      | (d', None) \<Rightarrow> save_checkpoint root_ckpt_dir n d')"

text \<open>The learning rates the writer was given, oldest first.\<close>

definition lr_history :: "loop_state \<Rightarrow> real list" where
  "lr_history st = map (\<lambda>(tag, v, step). v) (filter (\<lambda>(tag, v, step). tag = ''learning_rate'') (writer st))"

text \<open>The number of epochs that ran to their end.\<close>

definition completed :: "loop_state \<Rightarrow> nat" where
  "completed st = length (per_epoch_time st)"

text \<open>The scheduler's state after the epochs \<open>0\<close> to \<open>j\<close> of a run in which no
  validation loss is below the first one, \<open>v0\<close>: every \<open>patience + 1\<close> epochs after the
  first reduce the learning rate once.\<close>

definition sched_after :: "params \<Rightarrow> real \<Rightarrow> nat \<Rightarrow> sched_state" where
  "sched_after p v0 j =
     \<lparr>best_loss = Some v0,
      bad_epochs = j mod (lr_schedule_patience p + 1),
      learning_rate = init_lr p * lr_reduce_factor p ^ (j div (lr_schedule_patience p + 1))\<rparr>"

text \<open>A world with the test values blotted out, and a state with the test values
  blotted out of what was printed: two worlds that differ in test values only are equal
  once blotted.\<close>

definition erase_test :: "world \<Rightarrow> world" where
  "erase_test w =
     w\<lparr>steps := (\<lambda>e. case steps w e of
                      Inl err \<Rightarrow> Inl err
                    | Inr m \<Rightarrow> Inr (m\<lparr>test_loss := 0, test_acc := 0\<rparr>)),
       final_evals := (case final_evals w of
                         Inl err \<Rightarrow> Inl err
                       | Inr (test_acc', train_acc') \<Rightarrow> Inr (0, train_acc'))\<rparr>"

fun hide_test :: "msg \<Rightarrow> msg" where
  "hide_test (EpochLine t lr l1 l2 l3 a1 a2 a3) = EpochLine t lr l1 l2 0 a1 a2 0"
| "hide_test (TestAccuracy a) = TestAccuracy 0"
| "hide_test m = m"

definition blot :: "loop_state \<Rightarrow> loop_state" where
  "blot st = st\<lparr>console := map hide_test (console st)\<rparr>"

text \<open>All that a run decides and leaves behind, but for the test values it printed: the
  scheduler's state with the learning rate, the checkpoint directory, what the writer
  was given, the four lists (the validation losses are what the scheduler observed), the
  time of each epoch, the messages in order, and how the loop ended.\<close>

definition decisions :: "loop_state \<times> outcome \<Rightarrow> loop_state \<times> outcome" where
  "decisions res = (blot (fst res), snd res)"

text \<open>A directory name of the kind \<^verbatim>\<open>main\<close> builds at lines 187 to 189.\<close>

definition demo_ckpt_dir :: string where
  "demo_ckpt_dir = ''result/m1_demo/checkpoints/GCN_MNIST_GPU0_12h30m05s_on_Nov_03_2026''"

text \<open>A world for examples: every epoch takes ten seconds and returns the same
  metrics; the test values \<open>7\<close> and \<open>9\<close> are unlike all others.\<close>

definition demo_world :: world where
  "demo_world =
     \<lparr>t0 = 0,
      steps = (\<lambda>e. Inr \<lparr>train_loss = 1, train_acc = 1 / 2, val_loss = 2, val_acc = 1 / 4,
                            test_loss = 7, test_acc = 9\<rparr>),
      clock = (\<lambda>e. \<lparr>t_start = 10 * real e, t_end = 10 * real e + 8,
                      t_print = 10 * real e + 9, t_check = 10 * real e + 10\<rparr>),
      final_evals = Inr (9, 1 / 2),
      t_final = 1000\<rparr>"

section \<open>File names\<close>

lemma split_on_nonempty: "split_on c s \<noteq> []"
  by (induction s) auto

lemma split_on_notin: "c \<notin> set s \<Longrightarrow> split_on c s = [s]"
  by (induction s) auto

lemma last_split_on: "c \<notin> set b \<Longrightarrow> last (split_on c (a @ c # b)) = b"
proof (induction a)
  case Nil
  then show ?case by (simp add: split_on_notin)
next
  case (Cons x a)
  have ne: "tl (split_on c (a @ c # b)) \<noteq> []"
    by (induction a) (auto simp: split_on_nonempty)
  from Cons ne show ?case
    by (auto simp: split_on_nonempty last_tl)
qed

lemma hd_split_on: "c \<notin> set a \<Longrightarrow> hd (split_on c (a @ c # b)) = a"
  by (induction a) auto

lemma digit_char_props:
  assumes "k < 10"
  shows "is_digit (digit_char k)" and "digit_val (digit_char k) = k"
proof -
  from assms have "k \<in> {0, 1, 2, 3, 4, 5, 6, 7, 8, 9}" by auto
  then show "is_digit (digit_char k)" "digit_val (digit_char k) = k"
    by (auto simp: digit_char_def is_digit_def digit_val_def)
qed

lemma is_digit_props:
  assumes "is_digit c"
  shows "c \<noteq> CHR ''_''" "c \<noteq> CHR ''.''" "c \<noteq> CHR ''-''" "c \<noteq> CHR ''+''" "\<not> is_space c"
  using assms by (auto simp: is_digit_def is_space_def)

lemma str_nat_digits: "list_all is_digit (str_nat n)"
proof (induction n rule: str_nat.induct)
  case (1 n)
  show ?case
  proof (cases "n < 10")
    case True
    then show ?thesis by (simp add: str_nat.simps [of n] digit_char_props)
  next
    case False
    with 1 show ?thesis by (simp add: str_nat.simps [of n] digit_char_props)
  qed
qed

lemma str_nat_nonempty: "str_nat n \<noteq> []"
  by (simp add: str_nat.simps [of n])

lemma nat_of_digits_snoc: "nat_of_digits (ds @ [c]) = 10 * nat_of_digits ds + digit_val c"
  by (simp add: nat_of_digits_def)

text \<open>Reading back what \<^verbatim>\<open>format\<close> printed gives the number.\<close>

lemma nat_of_digits_str_nat: "nat_of_digits (str_nat n) = n"
proof (induction n rule: str_nat.induct)
  case (1 n)
  show ?case
  proof (cases "n < 10")
    case True
    then show ?thesis by (simp add: str_nat.simps [of n] nat_of_digits_def digit_char_props)
  next
    case False
    with 1 show ?thesis
      by (simp add: str_nat.simps [of n] nat_of_digits_snoc digit_char_props)
  qed
qed

lemma strip_digits:
  assumes "ds \<noteq> []" "list_all is_digit ds"
  shows "strip ds = ds"
proof -
  from assms have h: "\<not> is_space (hd ds)"
    by (cases ds) (auto simp: is_digit_props)
  from assms have l: "\<not> is_space (hd (rev ds))"
    by (cases ds rule: rev_cases) (auto simp: is_digit_props)
  from assms h have "dropWhile is_space ds = ds" by (cases ds) auto
  moreover from assms l have "dropWhile is_space (rev ds) = rev ds" by (cases "rev ds") auto
  ultimately show ?thesis by (simp add: strip_def)
qed

lemma py_int_digits:
  assumes "ds \<noteq> []" "list_all is_digit ds"
  shows "py_int ds = Inr (int (nat_of_digits ds))"
proof -
  from assms have "hd ds \<noteq> CHR ''-''" "hd ds \<noteq> CHR ''+''"
    by (cases ds; auto simp: is_digit_props)+
  with assms show ?thesis by (simp add: py_int_def strip_digits Let_def)
qed

lemma py_int_str_nat: "py_int (str_nat n) = Inr (int n)"
  by (simp add: py_int_digits str_nat_digits str_nat_nonempty nat_of_digits_str_nat)

lemma digits_no_sep:
  assumes "list_all is_digit ds"
  shows "CHR ''_'' \<notin> set ds" "CHR ''.'' \<notin> set ds"
  using assms by (auto simp: list_all_iff dest: is_digit_props(1) is_digit_props(2))

text \<open>The epoch index is read back from the path of a checkpoint, whatever the
  directory is called.\<close>

lemma parse_epoch_ckpt: "parse_epoch (root_ckpt_dir @ ''/'' @ ckpt_name k) = Inr (int k)"
proof -
  have u: "CHR ''_'' \<notin> set (str_nat k @ ''.pkl'')"
    using digits_no_sep(1) [OF str_nat_digits [of k]] by simp
  have e: "root_ckpt_dir @ ''/'' @ ckpt_name k
             = (root_ckpt_dir @ ''/epoch'') @ CHR ''_'' # (str_nat k @ ''.pkl'')"
    by (simp add: ckpt_name_def)
  have "last (split_on (CHR ''_'') (root_ckpt_dir @ ''/'' @ ckpt_name k)) = str_nat k @ ''.pkl''"
    unfolding e by (rule last_split_on [OF u])
  moreover have "hd (split_on (CHR ''.'') (str_nat k @ ''.pkl'')) = str_nat k"
    using hd_split_on [OF digits_no_sep(2) [OF str_nat_digits [of k]], of "''pkl''"] by simp
  ultimately show ?thesis by (simp add: parse_epoch_def py_int_str_nat)
qed

lemma ckpt_name_inj: "ckpt_name a = ckpt_name b \<longleftrightarrow> a = b"
proof
  assume "ckpt_name a = ckpt_name b"
  then have "parse_epoch ([] @ ''/'' @ ckpt_name a) = parse_epoch ([] @ ''/'' @ ckpt_name b)"
    by simp
  then show "a = b" unfolding parse_epoch_ckpt by simp
qed simp

lemma pkl_match_ckpt: "pkl_match (ckpt_name k)"
  by (simp add: pkl_match_def ckpt_name_def)

lemma entry_of_path: "entry_of root_ckpt_dir (root_ckpt_dir @ ''/'' @ name) = Some name"
  by (simp add: entry_of_def)

lemma entry_of_SomeD: "entry_of root_ckpt_dir file = Some name \<Longrightarrow> file = root_ckpt_dir @ ''/'' @ name"
  by (auto simp: entry_of_def split: if_splits) (metis append_take_drop_id append_Cons append_Nil append_assoc)

section \<open>The checkpoint directory\<close>

lemma os_remove_keeps:
  assumes "os_remove root_ckpt_dir d file = Inr d'" "name \<in> set (entries d)"
    "file \<noteq> root_ckpt_dir @ ''/'' @ name"
  shows "name \<in> set (entries d')"
  using assms
  by (auto simp: os_remove_def split: option.splits if_splits dest: entry_of_SomeD)

lemma prune_keeps:
  assumes "name \<in> set (entries d)"
    "parse_epoch (root_ckpt_dir @ ''/'' @ name) = Inr n" "\<not> n < int epoch - 1"
  shows "name \<in> set (entries (fst (prune root_ckpt_dir epoch files d)))"
  using assms(1)
proof (induction files arbitrary: d)
  case Nil
  then show ?case by simp
next
  case (Cons f fs)
  show ?case
  proof (cases "parse_epoch f")
    case (Inl err)
    with Cons.prems show ?thesis by simp
  next
    case (Inr m)
    show ?thesis
    proof (cases "m < int epoch - 1")
      case False
      with Inr Cons show ?thesis by simp
    next
      case True
      with Inr assms(2,3) have ne: "f \<noteq> root_ckpt_dir @ ''/'' @ name" by auto
      show ?thesis
      proof (cases "os_remove root_ckpt_dir d f")
        case (Inl err)
        with Inr True Cons.prems show ?thesis by simp
      next
        case rm: (Inr d')
        from os_remove_keeps [OF rm Cons.prems ne] have "name \<in> set (entries d')" .
        from Cons.IH [OF this] Inr True rm show ?thesis by simp
      qed
    qed
  qed
qed

lemma save_checkpoint_keeps:
  "ckpt_name epoch \<in> set (entries (fst (save_checkpoint root_ckpt_dir epoch d)))"
proof -
  have "ckpt_name epoch \<in> set (entries (torch_save d (ckpt_name epoch)))"
    by (simp add: torch_save_def)
  from prune_keeps [OF this parse_epoch_ckpt] show ?thesis
    by (simp add: save_checkpoint_def Let_def)
qed

lemma parse_epoch_path: "parse_epoch (root_ckpt_dir @ CHR ''/'' # ckpt_name k) = Inr (int k)"
  using parse_epoch_ckpt [of root_ckpt_dir k] by simp

lemma entry_of_path': "entry_of root_ckpt_dir (root_ckpt_dir @ CHR ''/'' # name) = Some name"
  using entry_of_path [of root_ckpt_dir name] by simp

lemma save_checkpoint_first:
  "save_checkpoint root_ckpt_dir 0 \<lparr>entries = [], locked = L\<rparr>
     = (\<lparr>entries = [ckpt_name 0], locked = L\<rparr>, None)"
  by (simp add: save_checkpoint_def torch_save_def glob_pkl_def pkl_match_ckpt
      parse_epoch_path Let_def)

lemma save_checkpoint_second:
  "save_checkpoint root_ckpt_dir (Suc 0) \<lparr>entries = [ckpt_name 0], locked = L\<rparr>
     = (\<lparr>entries = [ckpt_name 0, ckpt_name (Suc 0)], locked = L\<rparr>, None)"
  by (simp add: save_checkpoint_def torch_save_def glob_pkl_def pkl_match_ckpt
      parse_epoch_path ckpt_name_inj Let_def)

lemma save_checkpoint_next:
  "ckpt_name e \<notin> L \<Longrightarrow>
   save_checkpoint root_ckpt_dir (Suc (Suc e)) \<lparr>entries = [ckpt_name e, ckpt_name (Suc e)], locked = L\<rparr>
     = (\<lparr>entries = [ckpt_name (Suc e), ckpt_name (Suc (Suc e))], locked = L\<rparr>, None)"
  by (simp add: save_checkpoint_def torch_save_def glob_pkl_def pkl_match_ckpt
      parse_epoch_path ckpt_name_inj os_remove_def entry_of_path' Let_def)

lemma save_checkpoint_refused:
  "ckpt_name e \<in> L \<Longrightarrow>
   save_checkpoint root_ckpt_dir (Suc (Suc e)) \<lparr>entries = [ckpt_name e, ckpt_name (Suc e)], locked = L\<rparr>
     = (\<lparr>entries = [ckpt_name e, ckpt_name (Suc e), ckpt_name (Suc (Suc e))], locked = L\<rparr>,
        Some PermissionError)"
  by (simp add: save_checkpoint_def torch_save_def glob_pkl_def pkl_match_ckpt
      parse_epoch_path ckpt_name_inj os_remove_def entry_of_path' Let_def)

text \<open>What a new directory holds after the saves of the epochs \<open>0\<close> to \<open>e\<close>.\<close>

lemma saves_fresh:
  "saves root_ckpt_dir (Suc e) fresh_dir =
     (\<lparr>entries = (case e of 0 \<Rightarrow> [ckpt_name 0] | Suc e' \<Rightarrow> [ckpt_name e', ckpt_name e]),
       locked = {}\<rparr>, None)"
proof (induction e)
  case 0
  show ?case by (simp add: save_checkpoint_first fresh_dir_def)
next
  case (Suc e)
  then show ?case
    by (cases e) (simp_all add: save_checkpoint_second save_checkpoint_next)
qed

lemma saves_keeps:
  "snd (saves root_ckpt_dir (Suc e) d) = None \<Longrightarrow>
     ckpt_name e \<in> set (entries (fst (saves root_ckpt_dir (Suc e) d)))"
  using save_checkpoint_keeps [of e root_ckpt_dir]
  by (auto split: prod.splits option.splits)

lemma ckpt_name_small:
  "ckpt_name 0 = ''epoch_0.pkl''" "ckpt_name (Suc 0) = ''epoch_1.pkl''"
  "ckpt_name (Suc (Suc 0)) = ''epoch_2.pkl''"
  by (simp_all add: ckpt_name_def str_nat.simps digit_char_def)

section \<open>One pass of the loop's body\<close>

lemma epoch_body_step_error:
  "steps w epoch = Inl err \<Longrightarrow>
     epoch_body p w root_ckpt_dir epoch st = (st\<lparr>console := console st @ [StartEpoch epoch]\<rparr>, Some err)"
  by (simp add: epoch_body_def)

lemma epoch_body_snd:
  "snd (epoch_body p w root_ckpt_dir epoch st) =
     (case steps w epoch of
        Inl err \<Rightarrow> Some err
      | Inr m \<Rightarrow> snd (save_checkpoint root_ckpt_dir epoch (ckpts st)))"
  by (simp add: epoch_body_def Let_def split: sum.splits option.splits)

lemma epoch_body_sched:
  "sched (fst (epoch_body p w root_ckpt_dir epoch st)) =
     (case steps w epoch of
        Inl err \<Rightarrow> sched st
      | Inr m \<Rightarrow> observe (lr_reduce_factor p) (lr_schedule_patience p) (sched st) (val_loss m))"
  by (simp add: epoch_body_def record_epoch_def Let_def split: sum.splits option.splits)

lemma epoch_body_ckpts:
  "ckpts (fst (epoch_body p w root_ckpt_dir epoch st)) =
     (case steps w epoch of
        Inl err \<Rightarrow> ckpts st
      | Inr m \<Rightarrow> fst (save_checkpoint root_ckpt_dir epoch (ckpts st)))"
  by (simp add: epoch_body_def record_epoch_def Let_def split: sum.splits option.splits)

lemma epoch_body_writer:
  "writer (fst (epoch_body p w root_ckpt_dir epoch st)) =
     (case steps w epoch of
        Inl err \<Rightarrow> writer st
      | Inr m \<Rightarrow>
          (case snd (save_checkpoint root_ckpt_dir epoch (ckpts st)) of
             Some err \<Rightarrow> writer st
           | None \<Rightarrow> writer st @
               [(''train/_loss'', train_loss m, epoch),
                (''val/_loss'', val_loss m, epoch),
                (''train/_acc'', train_acc m, epoch),
                (''val/_acc'', val_acc m, epoch),
                (''learning_rate'',
                 learning_rate (observe (lr_reduce_factor p) (lr_schedule_patience p) (sched st) (val_loss m)),
                 epoch)]))"
  by (simp add: epoch_body_def record_epoch_def Let_def split: sum.splits option.splits)

lemma epoch_body_completed:
  "completed (fst (epoch_body p w root_ckpt_dir epoch st)) =
     (if snd (epoch_body p w root_ckpt_dir epoch st) = None then Suc (completed st) else completed st)"
  by (simp add: epoch_body_def record_epoch_def completed_def Let_def split: sum.splits option.splits)

lemma demo_steps [simp]:
  "steps demo_world e = Inr \<lparr>train_loss = 1, train_acc = 1 / 2, val_loss = 2, val_acc = 1 / 4,
                            test_loss = 7, test_acc = 9\<rparr>"
  by (simp add: demo_world_def)

lemma demo_clock [simp]: "t0 demo_world = 0" "t_check (clock demo_world e) = 10 * real e + 10"
  by (simp_all add: demo_world_def)

lemma init_state_simps [simp]:
  "sched (init_state p d) = \<lparr>best_loss = None, bad_epochs = 0, learning_rate = init_lr p\<rparr>"
  "ckpts (init_state p d) = d" "writer (init_state p d) = []" "completed (init_state p d) = 0"
  by (simp_all add: init_state_def completed_def)

section \<open>The loop and the whole run\<close>

lemma training_loop_step:
  "training_loop p w root_ckpt_dir (epoch # rest) st =
     (let st' = fst (epoch_body p w root_ckpt_dir epoch st) in
      case snd (epoch_body p w root_ckpt_dir epoch st) of
        Some err \<Rightarrow> (st', Raised err)
      | None \<Rightarrow>
          if learning_rate (sched st') < min_lr p
          then (st'\<lparr>console := console st' @ [LrEqualToMinLr]\<rparr>, Stopped Converged)
          else if t_check (clock w epoch) - t0 w > max_time p * 3600
          then (st'\<lparr>console := console st' @ [MaxTimeElapsed (max_time p)]\<rparr>, Stopped Timeout)
          else training_loop p w root_ckpt_dir rest st')"
  by (simp add: Let_def split: prod.splits option.splits)

lemma finalize_fields:
  "sched (fst (finalize w st r)) = sched st"
  "ckpts (fst (finalize w st r)) = ckpts st"
  "writer (fst (finalize w st r)) = writer st"
  "completed (fst (finalize w st r)) = completed st"
  "snd (finalize w st r) = (case final_evals w of Inl err \<Rightarrow> Raised err | Inr a \<Rightarrow> Stopped r)"
  by (simp_all add: finalize_def completed_def split: sum.splits prod.splits)

lemma pipeline_fields:
  "sched (fst (train_val_pipeline p w root_ckpt_dir d))
     = sched (fst (training_loop p w root_ckpt_dir [0..<epochs p] (init_state p d)))"
  "ckpts (fst (train_val_pipeline p w root_ckpt_dir d))
     = ckpts (fst (training_loop p w root_ckpt_dir [0..<epochs p] (init_state p d)))"
  "writer (fst (train_val_pipeline p w root_ckpt_dir d))
     = writer (fst (training_loop p w root_ckpt_dir [0..<epochs p] (init_state p d)))"
  "completed (fst (train_val_pipeline p w root_ckpt_dir d))
     = completed (fst (training_loop p w root_ckpt_dir [0..<epochs p] (init_state p d)))"
  by (simp_all add: train_val_pipeline_def finalize_fields split: prod.splits outcome.splits)

lemma pipeline_outcome:
  "snd (train_val_pipeline p w root_ckpt_dir d) =
     (case snd (training_loop p w root_ckpt_dir [0..<epochs p] (init_state p d)) of
        Raised err \<Rightarrow> Raised err
      | Stopped r \<Rightarrow> (case final_evals w of Inl err \<Rightarrow> Raised err | Inr a \<Rightarrow> Stopped r))"
  by (simp add: train_val_pipeline_def finalize_fields split: prod.splits outcome.splits)

lemma console_update_fields [simp]:
  "sched (st\<lparr>console := c\<rparr>) = sched st" "ckpts (st\<lparr>console := c\<rparr>) = ckpts st"
  "writer (st\<lparr>console := c\<rparr>) = writer st" "completed (st\<lparr>console := c\<rparr>) = completed st"
  by (simp_all add: completed_def)

section \<open>The order of the stopping tests\<close>

lemma timeout_above_floor:
  "snd (training_loop p w root_ckpt_dir es st) = Stopped Timeout \<Longrightarrow>
     \<not> learning_rate (sched (fst (training_loop p w root_ckpt_dir es st))) < min_lr p"
proof (induction es arbitrary: st)
  case Nil
  then show ?case by simp
next
  case (Cons e es)
  let ?b = "epoch_body p w root_ckpt_dir e st"
  from Cons.prems have ok: "snd ?b = None"
    unfolding training_loop_step by (auto simp: Let_def split: option.splits)
  show ?case
  proof (cases "learning_rate (sched (fst ?b)) < min_lr p")
    case True
    with ok Cons.prems show ?thesis
      unfolding training_loop_step by (simp add: Let_def)
  next
    case False
    show ?thesis
    proof (cases "t_check (clock w e) - t0 w > max_time p * 3600")
      case True
      with ok False show ?thesis
        unfolding training_loop_step by (simp add: Let_def)
    next
      case nt: False
      with ok False have "training_loop p w root_ckpt_dir (e # es) st
          = training_loop p w root_ckpt_dir es (fst ?b)"
        unfolding training_loop_step by (simp add: Let_def)
      with Cons.IH [of "fst ?b"] Cons.prems show ?thesis by simp
    qed
  qed
qed

text \<open>
  Claim C1. At every epoch that ran to its end and at which both stopping conditions
  hold (the learning rate is below \<^verbatim>\<open>min_lr\<close>, and more than \<^verbatim>\<open>max_time * 3600\<close>
  seconds have passed since \<open>t0\<close>), the loop leaves by its first \<^verbatim>\<open>break\<close>, the one of
  the learning-rate floor (line 123), and not by the one of the wall clock (line 126).
  And no loop that leaves by the wall clock has its learning rate below the floor.
\<close>

theorem lr_floor_before_timeout:
  assumes "snd (epoch_body p w root_ckpt_dir epoch st) = None"
    and "learning_rate (sched (fst (epoch_body p w root_ckpt_dir epoch st))) < min_lr p"
    and "t_check (clock w epoch) - t0 w > max_time p * 3600"
  shows "snd (training_loop p w root_ckpt_dir (epoch # rest) st) = Stopped Converged
       \<and> (\<forall>es st'. snd (training_loop p w root_ckpt_dir es st') = Stopped Timeout \<longrightarrow>
             \<not> learning_rate (sched (fst (training_loop p w root_ckpt_dir es st'))) < min_lr p)"
  using assms timeout_above_floor [of p w root_ckpt_dir]
  by (cases "epoch_body p w root_ckpt_dir epoch st") simp

theorem lr_floor_before_timeout_witness:
  "snd (training_loop ((main_params 128)\<lparr>init_lr := 1 / 1000000, max_time := 0\<rparr>) demo_world ''ckpt'' [0, 1]
          (init_state ((main_params 128)\<lparr>init_lr := 1 / 1000000, max_time := 0\<rparr>) fresh_dir))
     = Stopped Converged
   \<and> learning_rate (sched (fst (epoch_body ((main_params 128)\<lparr>init_lr := 1 / 1000000, max_time := 0\<rparr>)
          demo_world ''ckpt'' 0
          (init_state ((main_params 128)\<lparr>init_lr := 1 / 1000000, max_time := 0\<rparr>) fresh_dir))))
       < min_lr ((main_params 128)\<lparr>init_lr := 1 / 1000000, max_time := 0\<rparr>)
   \<and> t_check (clock demo_world 0) - t0 demo_world
       > max_time ((main_params 128)\<lparr>init_lr := 1 / 1000000, max_time := 0\<rparr>) * 3600"
proof -
  let ?p = "(main_params 128)\<lparr>init_lr := 1 / 1000000, max_time := 0\<rparr>"
  have b: "snd (epoch_body ?p demo_world ''ckpt'' 0 (init_state ?p fresh_dir)) = None"
    by (simp add: epoch_body_snd save_checkpoint_first fresh_dir_def)
  have l: "learning_rate (sched (fst (epoch_body ?p demo_world ''ckpt'' 0 (init_state ?p fresh_dir))))
             < min_lr ?p"
    by (simp add: epoch_body_sched observe_def main_params_def)
  have t: "t_check (clock demo_world 0) - t0 demo_world > max_time ?p * 3600"
    by simp
  from lr_floor_before_timeout [OF b l t] l t show ?thesis by blast
qed

section \<open>A time budget of zero\<close>

text \<open>
  Claim C7. With \<^verbatim>\<open>max_time\<close> equal to \<open>0\<close>, a loop of at least one epoch whose first
  epoch runs to its end with the learning rate not below \<^verbatim>\<open>min_lr\<close>, and whose clock
  has moved on from \<open>t0\<close> when line 126 reads it, performs exactly one epoch and leaves
  by the \<^verbatim>\<open>break\<close> of the wall clock. The run as a whole then ends so as well, unless
  the final evaluation raises.
\<close>

theorem zero_budget_one_epoch:
  assumes "0 < epochs p" and "max_time p = 0"
    and "snd (epoch_body p w root_ckpt_dir 0 (init_state p d)) = None"
    and "\<not> learning_rate (sched (fst (epoch_body p w root_ckpt_dir 0 (init_state p d)))) < min_lr p"
    and "t0 w < t_check (clock w 0)"
  shows "snd (training_loop p w root_ckpt_dir [0..<epochs p] (init_state p d)) = Stopped Timeout
       \<and> completed (fst (training_loop p w root_ckpt_dir [0..<epochs p] (init_state p d))) = 1
       \<and> completed (fst (train_val_pipeline p w root_ckpt_dir d)) = 1
       \<and> snd (train_val_pipeline p w root_ckpt_dir d)
           = (case final_evals w of Inl err \<Rightarrow> Raised err | Inr a \<Rightarrow> Stopped Timeout)"
proof -
  from assms(1) have u: "[0..<epochs p] = 0 # [Suc 0..<epochs p]"
    by (simp add: upt_conv_Cons)
  have l: "training_loop p w root_ckpt_dir [0..<epochs p] (init_state p d)
             = ((fst (epoch_body p w root_ckpt_dir 0 (init_state p d)))
                  \<lparr>console := console (fst (epoch_body p w root_ckpt_dir 0 (init_state p d)))
                     @ [MaxTimeElapsed (max_time p)]\<rparr>, Stopped Timeout)"
    unfolding u training_loop_step using assms(2-5) by (simp add: Let_def)
  have c: "completed (fst (epoch_body p w root_ckpt_dir 0 (init_state p d))) = 1"
    using assms(3) by (simp add: epoch_body_completed)
  show ?thesis
    by (simp add: pipeline_fields pipeline_outcome l c)
qed

theorem zero_budget_one_epoch_witness:
  "snd (training_loop ((main_params 128)\<lparr>max_time := 0\<rparr>) demo_world ''ckpt''
          [0..<epochs ((main_params 128)\<lparr>max_time := 0\<rparr>)]
          (init_state ((main_params 128)\<lparr>max_time := 0\<rparr>) fresh_dir)) = Stopped Timeout
   \<and> completed (fst (train_val_pipeline ((main_params 128)\<lparr>max_time := 0\<rparr>) demo_world ''ckpt'' fresh_dir)) = 1
   \<and> snd (train_val_pipeline ((main_params 128)\<lparr>max_time := 0\<rparr>) demo_world ''ckpt'' fresh_dir)
       = Stopped Timeout"
proof -
  let ?p = "(main_params 128)\<lparr>max_time := 0\<rparr>"
  have e: "0 < epochs ?p" and m: "max_time ?p = 0" by (simp_all add: main_params_def)
  have b: "snd (epoch_body ?p demo_world ''ckpt'' 0 (init_state ?p fresh_dir)) = None"
    by (simp add: epoch_body_snd save_checkpoint_first fresh_dir_def)
  have l: "\<not> learning_rate (sched (fst (epoch_body ?p demo_world ''ckpt'' 0 (init_state ?p fresh_dir))))
             < min_lr ?p"
    by (simp add: epoch_body_sched observe_def main_params_def)
  have t: "t0 demo_world < t_check (clock demo_world 0)" by simp
  have f: "final_evals demo_world = Inr (9, 1 / 2)" by (simp add: demo_world_def)
  from zero_budget_one_epoch [OF e m b l t] f show ?thesis by simp
qed

section \<open>What the writer is given\<close>

lemma epoch_body_writer_length:
  "length (writer (fst (epoch_body p w root_ckpt_dir epoch st))) =
     (if snd (epoch_body p w root_ckpt_dir epoch st) = None
      then length (writer st) + 5 else length (writer st))"
  by (cases "steps w epoch")
    (auto simp: epoch_body_writer epoch_body_snd split: option.splits)

lemma training_loop_writer_length:
  "length (writer st) = 5 * completed st \<Longrightarrow>
     length (writer (fst (training_loop p w root_ckpt_dir es st)))
       = 5 * completed (fst (training_loop p w root_ckpt_dir es st))"
proof (induction es arbitrary: st)
  case Nil
  then show ?case by simp
next
  case (Cons e es)
  let ?st' = "fst (epoch_body p w root_ckpt_dir e st)"
  from Cons.prems have i: "length (writer ?st') = 5 * completed ?st'"
    by (simp add: epoch_body_writer_length epoch_body_completed)
  from Cons.IH [OF i] i show ?case
    unfolding training_loop_step by (simp add: Let_def split: option.splits)
qed

text \<open>
  Claim C3, as the code has it. For every epoch that runs to its end the writer is given
  five scalars at that epoch's index, by five calls of \<^verbatim>\<open>add_scalar\<close> (lines 111 to
  115): the train loss, the validation loss, the train accuracy, the validation accuracy
  and the learning rate the scheduler left. The test loss and the test accuracy are not
  among them; line 118 prints them. An epoch that an exception ends gives the writer
  nothing, and the stopping tests give it nothing: at the end of any run the writer holds
  five scalars for each epoch that ran to its end, and no other.
\<close>

theorem writer_five_scalars:
  assumes "snd (epoch_body p w root_ckpt_dir epoch st) = None"
  shows "(\<exists>m. steps w epoch = Inr m
           \<and> writer (fst (epoch_body p w root_ckpt_dir epoch st)) = writer st @
               [(''train/_loss'', train_loss m, epoch),
                (''val/_loss'', val_loss m, epoch),
                (''train/_acc'', train_acc m, epoch),
                (''val/_acc'', val_acc m, epoch),
                (''learning_rate'',
                 learning_rate (sched (fst (epoch_body p w root_ckpt_dir epoch st))), epoch)])
       \<and> length (writer (fst (train_val_pipeline p w root_ckpt_dir d)))
           = 5 * completed (fst (train_val_pipeline p w root_ckpt_dir d))"
proof -
  have "length (writer (fst (training_loop p w root_ckpt_dir [0..<epochs p] (init_state p d))))
      = 5 * completed (fst (training_loop p w root_ckpt_dir [0..<epochs p] (init_state p d)))"
    by (rule training_loop_writer_length) simp
  then have "length (writer (fst (train_val_pipeline p w root_ckpt_dir d)))
           = 5 * completed (fst (train_val_pipeline p w root_ckpt_dir d))"
    by (simp only: pipeline_fields)
  moreover from assms have "\<exists>m. steps w epoch = Inr m
           \<and> writer (fst (epoch_body p w root_ckpt_dir epoch st)) = writer st @
               [(''train/_loss'', train_loss m, epoch),
                (''val/_loss'', val_loss m, epoch),
                (''train/_acc'', train_acc m, epoch),
                (''val/_acc'', val_acc m, epoch),
                (''learning_rate'',
                 learning_rate (sched (fst (epoch_body p w root_ckpt_dir epoch st))), epoch)]"
    by (cases "steps w epoch")
      (simp_all add: epoch_body_snd epoch_body_writer epoch_body_sched)
  ultimately show ?thesis by blast
qed

theorem writer_five_scalars_witness:
  "\<exists>m. steps demo_world 0 = Inr m
     \<and> writer (fst (epoch_body (main_params 128) demo_world ''ckpt'' 0
                      (init_state (main_params 128) fresh_dir))) =
         writer (init_state (main_params 128) fresh_dir) @
           [(''train/_loss'', train_loss m, 0),
            (''val/_loss'', val_loss m, 0),
            (''train/_acc'', train_acc m, 0),
            (''val/_acc'', val_acc m, 0),
            (''learning_rate'',
             learning_rate (sched (fst (epoch_body (main_params 128) demo_world ''ckpt'' 0
                                          (init_state (main_params 128) fresh_dir)))), 0)]"
proof -
  have b: "snd (epoch_body (main_params 128) demo_world ''ckpt'' 0
                  (init_state (main_params 128) fresh_dir)) = None"
    by (simp add: epoch_body_snd save_checkpoint_first fresh_dir_def)
  from writer_five_scalars [OF b, of fresh_dir] show ?thesis by blast
qed

text \<open>The claim as stated fails on a run of one epoch: the writer holds five entries, and
  the test values \<open>7\<close> and \<open>9\<close> of that epoch are in none.\<close>

theorem writer_without_test_scalars:
  "writer (fst (train_val_pipeline ((main_params 128)\<lparr>epochs := 1\<rparr>) demo_world ''ckpt'' fresh_dir))
     = [(''train/_loss'', 1, 0), (''val/_loss'', 2, 0), (''train/_acc'', 1 / 2, 0),
        (''val/_acc'', 1 / 4, 0), (''learning_rate'', 1 / 1000, 0)]
   \<and> test_loss (projr (steps demo_world 0)) = 7
   \<and> test_acc (projr (steps demo_world 0)) = 9
   \<and> completed (fst (train_val_pipeline ((main_params 128)\<lparr>epochs := 1\<rparr>) demo_world ''ckpt'' fresh_dir)) = 1"
proof -
  let ?p = "(main_params 128)\<lparr>epochs := 1\<rparr>"
  let ?b = "epoch_body ?p demo_world ''ckpt'' 0 (init_state ?p fresh_dir)"
  have b: "snd ?b = None"
    by (simp add: epoch_body_snd save_checkpoint_first fresh_dir_def)
  have s: "sched (fst ?b) = \<lparr>best_loss = Some 2, bad_epochs = 0, learning_rate = 1 / 1000\<rparr>"
    by (simp add: epoch_body_sched observe_def main_params_def)
  have l: "training_loop ?p demo_world ''ckpt'' [0..<epochs ?p] (init_state ?p fresh_dir)
             = (fst ?b, Stopped MaxEpochs)"
  proof -
    have u: "[0..<epochs ?p] = [0]" by (simp add: main_params_def)
    have m: "\<not> learning_rate (sched (fst ?b)) < min_lr ?p"
      unfolding s by (simp add: main_params_def)
    have t: "\<not> t_check (clock demo_world 0) - t0 demo_world > max_time ?p * 3600"
      by (simp add: main_params_def)
    show ?thesis unfolding u training_loop_step using b m t by (simp add: Let_def)
  qed
  have wr: "writer (fst ?b) = [(''train/_loss'', 1, 0), (''val/_loss'', 2, 0), (''train/_acc'', 1 / 2, 0),
        (''val/_acc'', 1 / 4, 0), (''learning_rate'', 1 / 1000, 0)]"
    by (simp add: epoch_body_writer save_checkpoint_first fresh_dir_def observe_def main_params_def)
  have c: "completed (fst ?b) = 1"
    using b by (simp add: epoch_body_completed)
  show ?thesis
    unfolding pipeline_fields l fst_conv wr c by simp
qed

section \<open>A checkpoint that cannot be deleted\<close>

lemma os_remove_locked:
  "os_remove root_ckpt_dir d f = Inr d' \<Longrightarrow> locked d' = locked d"
  by (auto simp: os_remove_def split: option.splits if_splits)

lemma os_remove_refused:
  "name \<in> locked d \<Longrightarrow> \<exists>err. os_remove root_ckpt_dir d (root_ckpt_dir @ ''/'' @ name) = Inl err"
  by (simp add: os_remove_def entry_of_path')

lemma prune_refused:
  assumes "parse_epoch (root_ckpt_dir @ ''/'' @ name) = Inr n" "n < int epoch - 1"
  shows "name \<in> locked d \<Longrightarrow> root_ckpt_dir @ ''/'' @ name \<in> set fs
           \<Longrightarrow> snd (prune root_ckpt_dir epoch fs d) \<noteq> None"
proof (induction fs arbitrary: d)
  case Nil
  then show ?case by simp
next
  case (Cons f fs)
  show ?case
  proof (cases "parse_epoch f")
    case (Inl err)
    then show ?thesis by simp
  next
    case (Inr m)
    show ?thesis
    proof (cases "m < int epoch - 1")
      case False
      with Inr assms have "f \<noteq> root_ckpt_dir @ ''/'' @ name" by auto
      with Cons.prems have "root_ckpt_dir @ ''/'' @ name \<in> set fs" by simp
      from Cons.IH [OF Cons.prems(1) this] Inr False show ?thesis by simp
    next
      case True
      show ?thesis
      proof (cases "os_remove root_ckpt_dir d f")
        case (Inl err)
        with Inr True show ?thesis by simp
      next
        case rm: (Inr d')
        with os_remove_refused [OF Cons.prems(1), of root_ckpt_dir]
        have "f \<noteq> root_ckpt_dir @ ''/'' @ name" by auto
        with Cons.prems have in_fs: "root_ckpt_dir @ ''/'' @ name \<in> set fs" by simp
        from Cons.prems(1) os_remove_locked [OF rm] have "name \<in> locked d'" by simp
        from Cons.IH [OF this in_fs] Inr True rm show ?thesis by simp
      qed
    qed
  qed
qed

lemma save_checkpoint_refused_any:
  assumes "name \<in> set (entries d)" "pkl_match name" "name \<in> locked d"
    "parse_epoch (root_ckpt_dir @ ''/'' @ name) = Inr n" "n < int epoch - 1"
  shows "snd (save_checkpoint root_ckpt_dir epoch d) \<noteq> None"
proof -
  let ?d1 = "torch_save d (ckpt_name epoch)"
  from assms(3) have l: "name \<in> locked ?d1" by (simp add: torch_save_def)
  from assms(1,2) have g: "root_ckpt_dir @ ''/'' @ name \<in> set (glob_pkl root_ckpt_dir ?d1)"
    by (auto simp: glob_pkl_def torch_save_def)
  from prune_refused [OF assms(4,5) l g] show ?thesis
    by (simp add: save_checkpoint_def Let_def)
qed

lemma epoch_body_console_raised:
  "snd (epoch_body p w root_ckpt_dir epoch st) \<noteq> None \<Longrightarrow>
     console (fst (epoch_body p w root_ckpt_dir epoch st)) = console st @ [StartEpoch epoch]"
  by (auto simp: epoch_body_def Let_def split: sum.splits option.splits)

text \<open>
  Claim C4, as the code has it. \<^verbatim>\<open>save_checkpoint\<close> calls \<^verbatim>\<open>os.remove\<close> with nothing
  around it to catch an exception. When an epoch's steps return and the directory holds a
  checkpoint that the prune of that epoch is to delete and that cannot be deleted, the
  call raises, the loop ends there with that exception, and nothing about it is printed:
  after the epoch's opening line the console is as it was.
\<close>

theorem deletion_failure_aborts:
  assumes "steps w epoch = Inr m"
    and "name \<in> set (entries (ckpts st))" and "pkl_match name" and "name \<in> locked (ckpts st)"
    and "parse_epoch (root_ckpt_dir @ ''/'' @ name) = Inr n" and "n < int epoch - 1"
  shows "(\<exists>err. snd (training_loop p w root_ckpt_dir (epoch # rest) st) = Raised err)
       \<and> console (fst (training_loop p w root_ckpt_dir (epoch # rest) st))
           = console st @ [StartEpoch epoch]"
proof -
  from save_checkpoint_refused_any [OF assms(2-6)] assms(1)
  have r: "snd (epoch_body p w root_ckpt_dir epoch st) \<noteq> None"
    by (simp add: epoch_body_snd)
  then obtain err where e: "snd (epoch_body p w root_ckpt_dir epoch st) = Some err" by auto
  from epoch_body_console_raised [OF r] e show ?thesis
    unfolding training_loop_step by (simp add: Let_def)
qed

theorem deletion_failure_aborts_witness:
  "(\<exists>err. snd (training_loop (main_params 128) demo_world ''ckpt'' [2, 3]
              ((init_state (main_params 128) fresh_dir)
                 \<lparr>ckpts := \<lparr>entries = [''epoch_0.pkl'', ''epoch_1.pkl''],
                             locked = {''epoch_0.pkl''}\<rparr>\<rparr>)) = Raised err)
   \<and> console (fst (training_loop (main_params 128) demo_world ''ckpt'' [2, 3]
              ((init_state (main_params 128) fresh_dir)
                 \<lparr>ckpts := \<lparr>entries = [''epoch_0.pkl'', ''epoch_1.pkl''],
                             locked = {''epoch_0.pkl''}\<rparr>\<rparr>)))
       = [StartEpoch 2]"
proof -
  let ?st = "(init_state (main_params 128) fresh_dir)
                 \<lparr>ckpts := \<lparr>entries = [''epoch_0.pkl'', ''epoch_1.pkl''],
                             locked = {''epoch_0.pkl''}\<rparr>\<rparr>"
  have s: "steps demo_world 2 = Inr \<lparr>train_loss = 1, train_acc = 1 / 2, val_loss = 2,
             val_acc = 1 / 4, test_loss = 7, test_acc = 9\<rparr>" by simp
  have a: "''epoch_0.pkl'' \<in> set (entries (ckpts ?st))" by simp
  have b: "pkl_match ''epoch_0.pkl''" by (simp add: pkl_match_def)
  have c: "''epoch_0.pkl'' \<in> locked (ckpts ?st)" by simp
  have d: "parse_epoch (''ckpt'' @ ''/'' @ ''epoch_0.pkl'') = Inr 0"
    using parse_epoch_ckpt [of "''ckpt''" 0] by (simp add: ckpt_name_small)
  have e: "(0::int) < int 2 - 1" by simp
  have f: "console ?st = []" by (simp add: init_state_def)
  from deletion_failure_aborts [OF s a b c d e, of "main_params 128" "[3]"] f
  show ?thesis by simp
qed

text \<open>The claim as stated fails on a run of five epochs in a new directory where the
  first checkpoint, once written, cannot be deleted: the prune of epoch \<open>2\<close> raises and
  the run ends with that exception after two epochs.\<close>

theorem deletion_failure_not_ignored:
  "snd (train_val_pipeline ((main_params 128)\<lparr>epochs := 5\<rparr>) demo_world ''ckpt''
          \<lparr>entries = [], locked = {''epoch_0.pkl''}\<rparr>) = Raised PermissionError
   \<and> completed (fst (train_val_pipeline ((main_params 128)\<lparr>epochs := 5\<rparr>) demo_world ''ckpt''
          \<lparr>entries = [], locked = {''epoch_0.pkl''}\<rparr>)) = 2"
proof -
  let ?p = "(main_params 128)\<lparr>epochs := 5\<rparr>"
  let ?L = "{''epoch_0.pkl''}"
  let ?st0 = "init_state ?p \<lparr>entries = [], locked = ?L\<rparr>"
  let ?b0 = "epoch_body ?p demo_world ''ckpt'' 0 ?st0"
  let ?b1 = "epoch_body ?p demo_world ''ckpt'' (Suc 0) (fst ?b0)"
  let ?b2 = "epoch_body ?p demo_world ''ckpt'' 2 (fst ?b1)"
  have lock: "ckpt_name 0 \<in> ?L" by (simp add: ckpt_name_small)
  have p: "min_lr ?p = 1 / 100000" "max_time ?p = 48" "lr_reduce_factor ?p = 1 / 2"
    "lr_schedule_patience ?p = 5" "init_lr ?p = 1 / 1000"
    by (simp_all add: main_params_def)
  have u: "[0..<epochs ?p] = [0, Suc 0, 2, 3, 4]"
    by (simp add: main_params_def upt_rec)
  have b0: "snd ?b0 = None" "ckpts (fst ?b0) = \<lparr>entries = [ckpt_name 0], locked = ?L\<rparr>"
    "sched (fst ?b0) = \<lparr>best_loss = Some 2, bad_epochs = 0, learning_rate = 1 / 1000\<rparr>"
    "completed (fst ?b0) = 1"
    by (simp_all add: epoch_body_snd epoch_body_ckpts epoch_body_sched epoch_body_completed
        save_checkpoint_first observe_def p)
  have b1: "snd ?b1 = None"
    "ckpts (fst ?b1) = \<lparr>entries = [ckpt_name 0, ckpt_name (Suc 0)], locked = ?L\<rparr>"
    "sched (fst ?b1) = \<lparr>best_loss = Some 2, bad_epochs = 1, learning_rate = 1 / 1000\<rparr>"
    "completed (fst ?b1) = 2"
    by (simp_all add: epoch_body_snd epoch_body_ckpts epoch_body_sched epoch_body_completed
        save_checkpoint_first save_checkpoint_second observe_def p)
  have b2: "snd ?b2 = Some PermissionError" "completed (fst ?b2) = 2"
    by (simp_all add: epoch_body_snd epoch_body_ckpts epoch_body_completed numeral_2_eq_2
        save_checkpoint_first save_checkpoint_second save_checkpoint_refused [OF lock])
  have t: "\<not> t_check (clock demo_world 0) - t0 demo_world > max_time ?p * 3600"
    "\<not> t_check (clock demo_world (Suc 0)) - t0 demo_world > max_time ?p * 3600"
    by (simp_all add: p)
  have l: "training_loop ?p demo_world ''ckpt'' [0..<epochs ?p] ?st0
             = (fst ?b2, Raised PermissionError)"
    unfolding u training_loop_step [of _ _ _ 0] training_loop_step [of _ _ _ "Suc 0"]
      training_loop_step [of _ _ _ 2]
    using t by (simp add: Let_def b0 b1 b2 p)
  show ?thesis
    unfolding pipeline_fields pipeline_outcome l by (simp add: b2)
qed

section \<open>The plateau policy\<close>

text \<open>Up to \<open>pat\<close> bad observations in a row only count.\<close>

lemma observe_counting:
  assumes "best_loss s = Some b" "\<forall>v \<in> set vs. \<not> v < b"
  shows "bad_epochs s + length vs \<le> pat \<Longrightarrow>
           foldl (observe f pat) s vs = s\<lparr>bad_epochs := bad_epochs s + length vs\<rparr>"
  using assms
proof (induction vs arbitrary: s)
  case Nil
  then show ?case by simp
next
  case (Cons v vs)
  from Cons.prems have o: "observe f pat s v = s\<lparr>bad_epochs := bad_epochs s + 1\<rparr>"
    by (simp add: observe_def)
  from Cons.prems have "foldl (observe f pat) (s\<lparr>bad_epochs := bad_epochs s + 1\<rparr>) vs
      = (s\<lparr>bad_epochs := bad_epochs s + 1\<rparr>)\<lparr>bad_epochs := bad_epochs (s\<lparr>bad_epochs := bad_epochs s + 1\<rparr>) + length vs\<rparr>"
    by (intro Cons.IH) simp_all
  with o show ?case by simp
qed

lemma observe_plateau:
  assumes "best_loss s = Some b" "\<forall>v \<in> set vs. \<not> v < b" "bad_epochs s = 0"
    "length vs = pat + 1"
  shows "foldl (observe f pat) s vs = s\<lparr>learning_rate := learning_rate s * f\<rparr>"
proof -
  from assms(4) obtain us u where vs: "vs = us @ [u]" and l: "length us = pat"
    by (cases vs rule: rev_cases) auto
  from assms vs l have "foldl (observe f pat) s us = s\<lparr>bad_epochs := bad_epochs s + length us\<rparr>"
    by (intro observe_counting [where b = b]) simp_all
  with assms vs l show ?thesis
    by (cases s) (simp add: observe_def)
qed

text \<open>
  Claim C5, for the scheduler as the spec describes it. Before any observation the best
  loss is plus infinity, and the first observation becomes the best loss. After that, let
  the best loss so far be \<open>b\<close>. An observation strictly below \<open>b\<close> becomes the best loss,
  sets the counter to \<open>0\<close> and leaves the learning rate. An observation equal to \<open>b\<close> is a
  bad one: it counts, or, when the count passes the patience, reduces. And from a counter
  of \<open>0\<close>, \<open>patience + 1\<close> observations in a row that are not below \<open>b\<close> end with the
  learning rate multiplied by the factor, once, and the counter back at \<open>0\<close>; after any
  \<open>k\<close> of them, \<open>k\<close> at most the patience, the learning rate is still the old one and the
  counter is \<open>k\<close>.
\<close>

theorem plateau_policy:
  "(best_loss s = None \<longrightarrow> observe f pat s v = s\<lparr>best_loss := Some v, bad_epochs := 0\<rparr>)
   \<and> (best_loss s = Some b \<longrightarrow>
        (v < b \<longrightarrow> observe f pat s v = s\<lparr>best_loss := Some v, bad_epochs := 0\<rparr>)
      \<and> observe f pat s b =
           (if bad_epochs s + 1 > pat
            then s\<lparr>bad_epochs := 0, learning_rate := learning_rate s * f\<rparr>
            else s\<lparr>bad_epochs := bad_epochs s + 1\<rparr>)
      \<and> (bad_epochs s = 0 \<and> length vs = pat + 1 \<and> (\<forall>v \<in> set vs. \<not> v < b) \<longrightarrow>
            foldl (observe f pat) s vs = s\<lparr>bad_epochs := 0, learning_rate := learning_rate s * f\<rparr>
            \<and> (\<forall>k \<le> pat. foldl (observe f pat) s (take k vs) = s\<lparr>bad_epochs := k\<rparr>)))"
proof (intro conjI impI allI)
  assume "best_loss s = None"
  then show "observe f pat s v = s\<lparr>best_loss := Some v, bad_epochs := 0\<rparr>"
    by (simp add: observe_def)
next
  assume "best_loss s = Some b" "v < b"
  then show "observe f pat s v = s\<lparr>best_loss := Some v, bad_epochs := 0\<rparr>"
    by (simp add: observe_def)
next
  assume "best_loss s = Some b"
  then show "observe f pat s b =
           (if bad_epochs s + 1 > pat
            then s\<lparr>bad_epochs := 0, learning_rate := learning_rate s * f\<rparr>
            else s\<lparr>bad_epochs := bad_epochs s + 1\<rparr>)"
    by (simp add: observe_def)
next
  assume b: "best_loss s = Some b"
    and a: "bad_epochs s = 0 \<and> length vs = pat + 1 \<and> (\<forall>v \<in> set vs. \<not> v < b)"
  with observe_plateau [of s b vs pat f]
  show "foldl (observe f pat) s vs = s\<lparr>bad_epochs := 0, learning_rate := learning_rate s * f\<rparr>"
    by simp
next
  fix k
  assume b: "best_loss s = Some b"
    and a: "bad_epochs s = 0 \<and> length vs = pat + 1 \<and> (\<forall>v \<in> set vs. \<not> v < b)"
    and k: "k \<le> pat"
  then have "\<forall>v \<in> set (take k vs). \<not> v < b" by (auto dest: in_set_takeD)
  with b a k observe_counting [of s b "take k vs" pat f]
  show "foldl (observe f pat) s (take k vs) = s\<lparr>bad_epochs := k\<rparr>"
    by simp
qed

theorem plateau_policy_witness:
  "observe (1 / 2) 5 \<lparr>best_loss = None, bad_epochs = 0, learning_rate = 1 / 1000\<rparr> 3
     = \<lparr>best_loss = Some 3, bad_epochs = 0, learning_rate = 1 / 1000\<rparr>
   \<and> observe (1 / 2) 5 \<lparr>best_loss = Some 2, bad_epochs = 3, learning_rate = 1 / 1000\<rparr> 1
     = \<lparr>best_loss = Some 1, bad_epochs = 0, learning_rate = 1 / 1000\<rparr>
   \<and> observe (1 / 2) 5 \<lparr>best_loss = Some 2, bad_epochs = 3, learning_rate = 1 / 1000\<rparr> 2
     = \<lparr>best_loss = Some 2, bad_epochs = 4, learning_rate = 1 / 1000\<rparr>
   \<and> foldl (observe (1 / 2) 5) \<lparr>best_loss = Some 2, bad_epochs = 0, learning_rate = 1 / 1000\<rparr>
        [2, 3, 2, 4, 2, 2]
     = \<lparr>best_loss = Some 2, bad_epochs = 0, learning_rate = 1 / 2000\<rparr>
   \<and> foldl (observe (1 / 2) 5) \<lparr>best_loss = Some 2, bad_epochs = 0, learning_rate = 1 / 1000\<rparr>
        (take 5 [2, 3, 2, 4, 2, 2])
     = \<lparr>best_loss = Some 2, bad_epochs = 5, learning_rate = 1 / 1000\<rparr>"
proof -
  let ?i = "\<lparr>best_loss = None, bad_epochs = 0, learning_rate = 1 / 1000 :: real\<rparr>"
  let ?s = "\<lparr>best_loss = Some 2, bad_epochs = 3, learning_rate = 1 / 1000 :: real\<rparr>"
  let ?z = "\<lparr>best_loss = Some 2, bad_epochs = 0, learning_rate = 1 / 1000 :: real\<rparr>"
  have n: "best_loss ?i = None" and a: "best_loss ?s = Some 2" and b: "best_loss ?z = Some 2"
    by simp_all
  have c: "bad_epochs ?z = 0 \<and> length [2, 3, 2, 4, 2, 2 :: real] = 5 + 1
      \<and> (\<forall>v \<in> set [2, 3, 2, 4, 2, 2 :: real]. \<not> v < 2)"
    by simp
  have lt: "(1::real) < 2" by simp
  from plateau_policy [of ?i "1 / 2" 5 3 0 "[]"] n
  have 0: "observe (1 / 2) 5 ?i 3 = ?i\<lparr>best_loss := Some 3, bad_epochs := 0\<rparr>"
    by blast
  from plateau_policy [of ?s "1 / 2" 5 1 2 "[]"] a lt
  have 1: "observe (1 / 2) 5 ?s 1 = ?s\<lparr>best_loss := Some 1, bad_epochs := 0\<rparr>"
    and 2: "observe (1 / 2) 5 ?s 2 =
           (if bad_epochs ?s + 1 > 5
            then ?s\<lparr>bad_epochs := 0, learning_rate := learning_rate ?s * (1 / 2)\<rparr>
            else ?s\<lparr>bad_epochs := bad_epochs ?s + 1\<rparr>)"
    by blast+
  from plateau_policy [of ?z "1 / 2" 5 1 2 "[2, 3, 2, 4, 2, 2]"] b c
  have 3: "foldl (observe (1 / 2) 5) ?z [2, 3, 2, 4, 2, 2]
             = ?z\<lparr>bad_epochs := 0, learning_rate := learning_rate ?z * (1 / 2)\<rparr>"
    and 4: "\<forall>k \<le> 5. foldl (observe (1 / 2) 5) ?z (take k [2, 3, 2, 4, 2, 2]) = ?z\<lparr>bad_epochs := k\<rparr>"
    by blast+
  from 4 have 5: "foldl (observe (1 / 2) 5) ?z (take 5 [2, 3, 2, 4, 2, 2]) = ?z\<lparr>bad_epochs := 5\<rparr>"
    by blast
  show ?thesis
    unfolding 0 1 2 3 5 by simp
qed

section \<open>Checkpoint retention\<close>

text \<open>The directory of the loop is the directory of its saves.\<close>

lemma loop_saves:
  "training_loop p w root_ckpt_dir [k..<n] st = (st', Stopped r) \<Longrightarrow> completed st = k \<Longrightarrow>
   saves root_ckpt_dir k d = (ckpts st, None) \<Longrightarrow>
   saves root_ckpt_dir (completed st') d = (ckpts st', None)"
proof (induction "n - k" arbitrary: k st)
  case 0
  then show ?case by auto
next
  case (Suc m)
  then have u: "[k..<n] = k # [Suc k..<n]" by (simp add: upt_conv_Cons)
  let ?b = "epoch_body p w root_ckpt_dir k st"
  from Suc.prems(1) have ok: "snd ?b = None"
    unfolding u training_loop_step by (auto simp: Let_def split: option.splits)
  then obtain mt where mt: "steps w k = Inr mt"
    and sv: "snd (save_checkpoint root_ckpt_dir k (ckpts st)) = None"
    by (cases "steps w k") (auto simp: epoch_body_snd)
  have c: "completed (fst ?b) = Suc k"
    using ok Suc.prems(2) by (simp add: epoch_body_completed)
  have s: "saves root_ckpt_dir (Suc k) d = (ckpts (fst ?b), None)"
  proof -
    have "saves root_ckpt_dir (Suc k) d = save_checkpoint root_ckpt_dir k (ckpts st)"
      by (simp add: Suc.prems(3))
    with mt sv show ?thesis by (simp add: epoch_body_ckpts prod_eq_iff)
  qed
  from Suc.prems(1) consider
      (stop) "ckpts st' = ckpts (fst ?b)" "completed st' = completed (fst ?b)"
    | (go) "training_loop p w root_ckpt_dir [Suc k..<n] (fst ?b) = (st', Stopped r)"
    unfolding u training_loop_step using ok
    by (auto simp: Let_def split: if_splits)
  then show ?case
  proof cases
    case stop
    with c s show ?thesis by simp
  next
    case go
    from Suc.hyps(2) have "m = n - Suc k" by simp
    from Suc.hyps(1) [OF this go c s] show ?thesis .
  qed
qed

text \<open>
  Claim C2. In a new run directory whose name \<^verbatim>\<open>glob\<close> takes as it is written, for every
  \<open>e \<ge> 1\<close>, once the save of epoch \<open>e\<close> has returned (the saves of the epochs \<open>0\<close> to
  \<open>e - 1\<close> having run before it, in turn), the directory holds the checkpoints of the
  epochs \<open>e\<close> and \<open>e - 1\<close> and nothing else, and no checkpoint of an epoch below \<open>e - 1\<close>;
  no save raises. The save of epoch \<open>0\<close> only writes its file: its prune removes nothing.
  And this sequence of saves is what the loop does to the directory: when the loop ends
  without an exception, the directory is the one the saves of the epochs that ran have
  left.
\<close>

theorem checkpoint_retention:
  assumes "literal_dir root_ckpt_dir"
  shows "saves root_ckpt_dir (Suc 0) fresh_dir = (torch_save fresh_dir (ckpt_name 0), None)
   \<and> (1 \<le> e \<longrightarrow>
        snd (saves root_ckpt_dir (Suc e) fresh_dir) = None
      \<and> set (entries (fst (saves root_ckpt_dir (Suc e) fresh_dir))) = {ckpt_name e, ckpt_name (e - 1)}
      \<and> distinct (entries (fst (saves root_ckpt_dir (Suc e) fresh_dir)))
      \<and> (\<forall>i. int i < int e - 1 \<longrightarrow>
            ckpt_name i \<notin> set (entries (fst (saves root_ckpt_dir (Suc e) fresh_dir)))))
   \<and> (\<forall>p w st r. training_loop p w root_ckpt_dir [0..<epochs p] (init_state p fresh_dir)
                      = (st, Stopped r) \<longrightarrow>
          saves root_ckpt_dir (completed st) fresh_dir = (ckpts st, None))"
proof (intro conjI impI allI)
  show "saves root_ckpt_dir (Suc 0) fresh_dir = (torch_save fresh_dir (ckpt_name 0), None)"
    by (simp add: save_checkpoint_first torch_save_def fresh_dir_def)
next
  assume e: "1 \<le> e"
  then obtain e' where e': "e = Suc e'" by (cases e) auto
  show "snd (saves root_ckpt_dir (Suc e) fresh_dir) = None"
    unfolding saves_fresh by simp
  show "set (entries (fst (saves root_ckpt_dir (Suc e) fresh_dir))) = {ckpt_name e, ckpt_name (e - 1)}"
    unfolding e' saves_fresh by auto
  show "distinct (entries (fst (saves root_ckpt_dir (Suc e) fresh_dir)))"
    unfolding e' saves_fresh by (simp add: ckpt_name_inj)
  fix i
  assume "int i < int e - 1"
  then show "ckpt_name i \<notin> set (entries (fst (saves root_ckpt_dir (Suc e) fresh_dir)))"
    unfolding e' saves_fresh by (simp add: ckpt_name_inj)
next
  fix p w st r
  assume "training_loop p w root_ckpt_dir [0..<epochs p] (init_state p fresh_dir) = (st, Stopped r)"
  from loop_saves [OF this, of fresh_dir]
  show "saves root_ckpt_dir (completed st) fresh_dir = (ckpts st, None)" by simp
qed

theorem checkpoint_retention_witness:
  "literal_dir demo_ckpt_dir
   \<and> saves demo_ckpt_dir (Suc 0) fresh_dir = (torch_save fresh_dir (ckpt_name 0), None)
   \<and> snd (saves demo_ckpt_dir (Suc 2) fresh_dir) = None
   \<and> set (entries (fst (saves demo_ckpt_dir (Suc 2) fresh_dir))) = {''epoch_2.pkl'', ''epoch_1.pkl''}
   \<and> ''epoch_0.pkl'' \<notin> set (entries (fst (saves demo_ckpt_dir (Suc 2) fresh_dir)))"
proof -
  have l: "literal_dir demo_ckpt_dir" by (simp add: literal_dir_def demo_ckpt_dir_def)
  have e: "(1::nat) \<le> 2" by simp
  have i: "int 0 < int 2 - 1" by simp
  from checkpoint_retention [OF l, of 2] e i
  have "saves demo_ckpt_dir (Suc 0) fresh_dir = (torch_save fresh_dir (ckpt_name 0), None)"
    and "snd (saves demo_ckpt_dir (Suc 2) fresh_dir) = None"
    and "set (entries (fst (saves demo_ckpt_dir (Suc 2) fresh_dir))) = {ckpt_name 2, ckpt_name (2 - 1)}"
    and "ckpt_name 0 \<notin> set (entries (fst (saves demo_ckpt_dir (Suc 2) fresh_dir)))"
    by blast+
  with l show ?thesis
    by (simp add: ckpt_name_small numeral_2_eq_2)
qed

section \<open>The last checkpoint\<close>

text \<open>
  Claim C10. Each pass of the loop saves its checkpoint (line 104) before the stopping
  tests (lines 123 and 126). So whenever the loop ends without an exception, by the
  learning-rate floor, by the wall clock or at the end of the range, after at least one
  epoch, the checkpoint of the last epoch that ran is in the directory, whatever the
  directory held at the start; the final evaluation leaves it there.
\<close>

theorem last_checkpoint_on_disk:
  assumes "training_loop p w root_ckpt_dir [0..<epochs p] (init_state p d) = (st, Stopped r)"
    and "0 < completed st"
  shows "ckpt_name (completed st - 1) \<in> set (entries (ckpts st))
       \<and> ckpt_name (completed st - 1)
           \<in> set (entries (ckpts (fst (train_val_pipeline p w root_ckpt_dir d))))"
proof -
  from loop_saves [OF assms(1), of d]
  have s: "saves root_ckpt_dir (completed st) d = (ckpts st, None)" by simp
  from assms(2) obtain j where j: "completed st = Suc j" by (cases "completed st") auto
  from saves_keeps [of root_ckpt_dir j d] s j
  have "ckpt_name (completed st - 1) \<in> set (entries (ckpts st))" by simp
  then show ?thesis by (simp add: pipeline_fields assms(1))
qed


lemma demo_one_epoch:
  "training_loop ((main_params 128)\<lparr>epochs := 1\<rparr>) demo_world ''ckpt''
       [0..<epochs ((main_params 128)\<lparr>epochs := 1\<rparr>)]
       (init_state ((main_params 128)\<lparr>epochs := 1\<rparr>) fresh_dir)
     = (fst (epoch_body ((main_params 128)\<lparr>epochs := 1\<rparr>) demo_world ''ckpt'' 0
               (init_state ((main_params 128)\<lparr>epochs := 1\<rparr>) fresh_dir)), Stopped MaxEpochs)"
  "completed (fst (epoch_body ((main_params 128)\<lparr>epochs := 1\<rparr>) demo_world ''ckpt'' 0
               (init_state ((main_params 128)\<lparr>epochs := 1\<rparr>) fresh_dir))) = 1"
proof -
  let ?p = "(main_params 128)\<lparr>epochs := 1\<rparr>"
  let ?b = "epoch_body ?p demo_world ''ckpt'' 0 (init_state ?p fresh_dir)"
  have b: "snd ?b = None"
    by (simp add: epoch_body_snd save_checkpoint_first fresh_dir_def)
  have s: "sched (fst ?b) = \<lparr>best_loss = Some 2, bad_epochs = 0, learning_rate = 1 / 1000\<rparr>"
    by (simp add: epoch_body_sched observe_def main_params_def)
  have u: "[0..<epochs ?p] = [0]" by (simp add: main_params_def)
  have m: "\<not> learning_rate (sched (fst ?b)) < min_lr ?p"
    unfolding s by (simp add: main_params_def)
  have t: "\<not> t_check (clock demo_world 0) - t0 demo_world > max_time ?p * 3600"
    by (simp add: main_params_def)
  show "training_loop ?p demo_world ''ckpt'' [0..<epochs ?p] (init_state ?p fresh_dir)
          = (fst ?b, Stopped MaxEpochs)"
    unfolding u training_loop_step using b m t by (simp add: Let_def)
  show "completed (fst ?b) = 1"
    using b by (simp add: epoch_body_completed)
qed

theorem last_checkpoint_on_disk_witness:
  "''epoch_0.pkl'' \<in> set (entries (ckpts (fst (train_val_pipeline
       ((main_params 128)\<lparr>epochs := 1\<rparr>) demo_world ''ckpt'' fresh_dir))))
   \<and> snd (training_loop ((main_params 128)\<lparr>epochs := 1\<rparr>) demo_world ''ckpt''
            [0..<epochs ((main_params 128)\<lparr>epochs := 1\<rparr>)]
            (init_state ((main_params 128)\<lparr>epochs := 1\<rparr>) fresh_dir)) = Stopped MaxEpochs"
proof -
  have c: "0 < completed (fst (epoch_body ((main_params 128)\<lparr>epochs := 1\<rparr>) demo_world ''ckpt'' 0
               (init_state ((main_params 128)\<lparr>epochs := 1\<rparr>) fresh_dir)))"
    by (simp only: demo_one_epoch(2))
  from last_checkpoint_on_disk [OF demo_one_epoch(1) c]
  show ?thesis
    unfolding demo_one_epoch by (simp add: ckpt_name_small)
qed

section \<open>Test metrics and the decisions of a run\<close>

lemma blot_eq_iff:
  "blot st = blot st' \<longleftrightarrow>
     sched st = sched st' \<and> ckpts st = ckpts st' \<and> writer st = writer st'
     \<and> per_epoch_time st = per_epoch_time st'
     \<and> epoch_train_losses st = epoch_train_losses st'
     \<and> epoch_val_losses st = epoch_val_losses st'
     \<and> epoch_train_accs st = epoch_train_accs st'
     \<and> epoch_val_accs st = epoch_val_accs st'
     \<and> map hide_test (console st) = map hide_test (console st')"
  by (cases st; cases st') (auto simp: blot_def)

lemma erase_test_fields [simp]:
  "t0 (erase_test w) = t0 w" "clock (erase_test w) = clock w" "t_final (erase_test w) = t_final w"
  "steps (erase_test w) e =
     (case steps w e of Inl err \<Rightarrow> Inl err | Inr m \<Rightarrow> Inr (m\<lparr>test_loss := 0, test_acc := 0\<rparr>))"
  "final_evals (erase_test w) =
     (case final_evals w of Inl err \<Rightarrow> Inl err | Inr (a, b) \<Rightarrow> Inr (0, b))"
  by (simp_all add: erase_test_def)

lemma epoch_body_erased:
  assumes "blot st = blot st'"
  shows "blot (fst (epoch_body p w root_ckpt_dir epoch st))
           = blot (fst (epoch_body p (erase_test w) root_ckpt_dir epoch st'))"
    and "snd (epoch_body p w root_ckpt_dir epoch st)
           = snd (epoch_body p (erase_test w) root_ckpt_dir epoch st')"
  using assms
  by (auto simp: blot_eq_iff epoch_body_def record_epoch_def Let_def
      split: sum.splits option.splits)

lemma training_loop_erased:
  "blot st = blot st' \<Longrightarrow>
     decisions (training_loop p w root_ckpt_dir es st)
       = decisions (training_loop p (erase_test w) root_ckpt_dir es st')"
proof (induction es arbitrary: st st')
  case Nil
  then show ?case by (simp add: decisions_def)
next
  case (Cons e es)
  let ?a = "epoch_body p w root_ckpt_dir e st"
  let ?b = "epoch_body p (erase_test w) root_ckpt_dir e st'"
  from epoch_body_erased [OF Cons.prems, of p w root_ckpt_dir e]
  have f: "blot (fst ?a) = blot (fst ?b)" and s: "snd ?a = snd ?b" by simp_all
  from f have l: "learning_rate (sched (fst ?a)) = learning_rate (sched (fst ?b))"
    by (simp add: blot_eq_iff)
  show ?case
  proof (cases "snd ?a")
    case (Some err)
    with s have sb: "snd ?b = Some err" by simp
    have "training_loop p w root_ckpt_dir (e # es) st = (fst ?a, Raised err)"
      unfolding training_loop_step by (simp add: Some Let_def)
    moreover have "training_loop p (erase_test w) root_ckpt_dir (e # es) st' = (fst ?b, Raised err)"
      unfolding training_loop_step by (simp add: sb Let_def)
    ultimately show ?thesis using f by (simp add: decisions_def)
  next
    case None
    with s have nb: "snd ?b = None" by simp
    have A: "training_loop p w root_ckpt_dir (e # es) st =
        (if learning_rate (sched (fst ?a)) < min_lr p
         then ((fst ?a)\<lparr>console := console (fst ?a) @ [LrEqualToMinLr]\<rparr>, Stopped Converged)
         else if t_check (clock w e) - t0 w > max_time p * 3600
         then ((fst ?a)\<lparr>console := console (fst ?a) @ [MaxTimeElapsed (max_time p)]\<rparr>, Stopped Timeout)
         else training_loop p w root_ckpt_dir es (fst ?a))"
      unfolding training_loop_step by (simp add: None Let_def)
    have B: "training_loop p (erase_test w) root_ckpt_dir (e # es) st' =
        (if learning_rate (sched (fst ?b)) < min_lr p
         then ((fst ?b)\<lparr>console := console (fst ?b) @ [LrEqualToMinLr]\<rparr>, Stopped Converged)
         else if t_check (clock w e) - t0 w > max_time p * 3600
         then ((fst ?b)\<lparr>console := console (fst ?b) @ [MaxTimeElapsed (max_time p)]\<rparr>, Stopped Timeout)
         else training_loop p (erase_test w) root_ckpt_dir es (fst ?b))"
      unfolding training_loop_step by (simp add: nb Let_def)
    from f have c1: "blot ((fst ?a)\<lparr>console := console (fst ?a) @ [LrEqualToMinLr]\<rparr>)
        = blot ((fst ?b)\<lparr>console := console (fst ?b) @ [LrEqualToMinLr]\<rparr>)"
      and c2: "blot ((fst ?a)\<lparr>console := console (fst ?a) @ [MaxTimeElapsed (max_time p)]\<rparr>)
        = blot ((fst ?b)\<lparr>console := console (fst ?b) @ [MaxTimeElapsed (max_time p)]\<rparr>)"
      by (simp_all add: blot_eq_iff)
    show ?thesis
      unfolding A B l using c1 c2 Cons.IH [OF f] by (simp add: decisions_def)
  qed
qed

lemma pipeline_unfold:
  "train_val_pipeline p w root_ckpt_dir d =
     (case snd (training_loop p w root_ckpt_dir [0..<epochs p] (init_state p d)) of
        Raised err \<Rightarrow> (fst (training_loop p w root_ckpt_dir [0..<epochs p] (init_state p d)), Raised err)
      | Stopped r \<Rightarrow> finalize w (fst (training_loop p w root_ckpt_dir [0..<epochs p] (init_state p d))) r)"
  by (simp add: train_val_pipeline_def split: prod.splits outcome.splits)

lemma finalize_erased:
  "blot st = blot st' \<Longrightarrow>
     decisions (finalize w st r) = decisions (finalize (erase_test w) st' r)"
  by (auto simp: finalize_def decisions_def blot_eq_iff split: sum.splits prod.splits)

lemma pipeline_erased:
  "decisions (train_val_pipeline p w root_ckpt_dir d)
     = decisions (train_val_pipeline p (erase_test w) root_ckpt_dir d)"
proof -
  let ?a = "training_loop p w root_ckpt_dir [0..<epochs p] (init_state p d)"
  let ?b = "training_loop p (erase_test w) root_ckpt_dir [0..<epochs p] (init_state p d)"
  have "decisions ?a = decisions ?b" by (rule training_loop_erased) simp
  then have f: "blot (fst ?a) = blot (fst ?b)" and s: "snd ?a = snd ?b"
    by (simp_all add: decisions_def)
  show ?thesis
  proof (cases "snd ?a")
    case (Raised err)
    with s have "snd ?b = Raised err" by simp
    with Raised f show ?thesis
      unfolding pipeline_unfold by (simp add: decisions_def)
  next
    case (Stopped r)
    with s have "snd ?b = Stopped r" by simp
    with Stopped finalize_erased [OF f, of w r] show ?thesis
      unfolding pipeline_unfold by simp
  qed
qed

text \<open>
  Claim C9. Two runs with the same parameters, directory, clock readings, train and
  validation values and exceptions, whatever test losses and test accuracies their
  evaluations return, decide the same: the same scheduler state and learning rates, the
  same validation losses observed, the same checkpoint directory, the same scalars given
  to the writer, the same number of epochs, and the same end of the loop for the same
  reason. Only the test values in the printed lines differ.
\<close>

theorem test_metrics_do_not_decide:
  assumes "erase_test w1 = erase_test w2"
  shows "decisions (train_val_pipeline p w1 root_ckpt_dir d)
           = decisions (train_val_pipeline p w2 root_ckpt_dir d)"
  using pipeline_erased [of p w1 root_ckpt_dir d] pipeline_erased [of p w2 root_ckpt_dir d] assms
  by simp


theorem test_metrics_do_not_decide_witness:
  "decisions (train_val_pipeline (main_params 128) demo_world ''ckpt'' fresh_dir)
     = decisions (train_val_pipeline (main_params 128)
         (demo_world\<lparr>steps := (\<lambda>e. Inr \<lparr>train_loss = 1, train_acc = 1 / 2, val_loss = 2,
                                         val_acc = 1 / 4, test_loss = 70, test_acc = 90\<rparr>),
                      final_evals := Inr (90, 1 / 2)\<rparr>) ''ckpt'' fresh_dir)
   \<and> steps demo_world 0
       \<noteq> Inr \<lparr>train_loss = 1, train_acc = 1 / 2, val_loss = 2,
               val_acc = 1 / 4, test_loss = 70, test_acc = 90\<rparr>"
proof -
  have e: "erase_test demo_world
      = erase_test (demo_world\<lparr>steps := (\<lambda>e. Inr \<lparr>train_loss = 1, train_acc = 1 / 2, val_loss = 2,
                                         val_acc = 1 / 4, test_loss = 70, test_acc = 90\<rparr>),
                      final_evals := Inr (90, 1 / 2)\<rparr>)"
    by (simp add: erase_test_def demo_world_def)
  from test_metrics_do_not_decide [OF e] show ?thesis by simp
qed

section \<open>The learning rate over a run\<close>

lemma observe_lr:
  assumes "0 \<le> f" "f \<le> 1" "0 \<le> learning_rate s"
  shows "0 \<le> learning_rate (observe f pat s v)"
    and "learning_rate (observe f pat s v) \<le> learning_rate s"
  using assms by (auto simp: observe_def mult_left_le)

lemma lr_history_console [simp]: "lr_history (st\<lparr>console := c\<rparr>) = lr_history st"
  by (simp add: lr_history_def)

lemma epoch_body_lr_history:
  "lr_history (fst (epoch_body p w root_ckpt_dir epoch st)) =
     (if snd (epoch_body p w root_ckpt_dir epoch st) = None
      then lr_history st @ [learning_rate (sched (fst (epoch_body p w root_ckpt_dir epoch st)))]
      else lr_history st)"
  by (cases "steps w epoch")
    (auto simp: lr_history_def epoch_body_writer epoch_body_snd epoch_body_sched
      split: option.splits)

lemma epoch_body_lr:
  assumes "0 \<le> lr_reduce_factor p" "lr_reduce_factor p \<le> 1" "0 \<le> learning_rate (sched st)"
  shows "0 \<le> learning_rate (sched (fst (epoch_body p w root_ckpt_dir epoch st)))"
    and "learning_rate (sched (fst (epoch_body p w root_ckpt_dir epoch st))) \<le> learning_rate (sched st)"
  using assms observe_lr [OF assms]
  by (auto simp: epoch_body_sched split: sum.splits)

text \<open>What holds of the learning rate before and after every pass: it is not negative,
  the writer's learning rates never go up and none is below the present one, and there is
  one of them for each epoch that ran.\<close>

lemma epoch_body_lr_inv:
  assumes "0 \<le> lr_reduce_factor p" "lr_reduce_factor p \<le> 1"
    and "0 \<le> learning_rate (sched st)"
    and "sorted_wrt (\<ge>) (lr_history st)"
    and "\<forall>x \<in> set (lr_history st). learning_rate (sched st) \<le> x"
    and "length (lr_history st) = completed st"
  shows "0 \<le> learning_rate (sched (fst (epoch_body p w root_ckpt_dir epoch st)))
       \<and> sorted_wrt (\<ge>) (lr_history (fst (epoch_body p w root_ckpt_dir epoch st)))
       \<and> (\<forall>x \<in> set (lr_history (fst (epoch_body p w root_ckpt_dir epoch st))).
             learning_rate (sched (fst (epoch_body p w root_ckpt_dir epoch st))) \<le> x)
       \<and> length (lr_history (fst (epoch_body p w root_ckpt_dir epoch st)))
           = completed (fst (epoch_body p w root_ckpt_dir epoch st))"
proof -
  let ?st' = "fst (epoch_body p w root_ckpt_dir epoch st)"
  from epoch_body_lr [OF assms(1-3), of w root_ckpt_dir epoch]
  have a: "0 \<le> learning_rate (sched ?st')"
    and b: "learning_rate (sched ?st') \<le> learning_rate (sched st)" by simp_all
  from b assms(5) have c: "\<forall>x \<in> set (lr_history st). learning_rate (sched ?st') \<le> x"
    by fastforce
  from a c assms(4,6) show ?thesis
    by (simp add: epoch_body_lr_history epoch_body_completed sorted_wrt_append)
qed

lemma training_loop_lr_inv:
  assumes "0 \<le> lr_reduce_factor p" "lr_reduce_factor p \<le> 1"
  shows "0 \<le> learning_rate (sched st) \<Longrightarrow> sorted_wrt (\<ge>) (lr_history st) \<Longrightarrow>
     \<forall>x \<in> set (lr_history st). learning_rate (sched st) \<le> x \<Longrightarrow>
     length (lr_history st) = completed st \<Longrightarrow>
     sorted_wrt (\<ge>) (lr_history (fst (training_loop p w root_ckpt_dir es st)))
     \<and> length (lr_history (fst (training_loop p w root_ckpt_dir es st)))
         = completed (fst (training_loop p w root_ckpt_dir es st))"
proof (induction es arbitrary: st)
  case Nil
  then show ?case by simp
next
  case (Cons e es)
  let ?st' = "fst (epoch_body p w root_ckpt_dir e st)"
  from epoch_body_lr_inv [OF assms Cons.prems, of w root_ckpt_dir e]
  have i: "0 \<le> learning_rate (sched ?st')" "sorted_wrt (\<ge>) (lr_history ?st')"
    "\<forall>x \<in> set (lr_history ?st'). learning_rate (sched ?st') \<le> x"
    "length (lr_history ?st') = completed ?st'"
    by simp_all
  from Cons.IH [OF i] i(2,4) show ?case
    unfolding training_loop_step by (simp add: Let_def split: option.splits)
qed

lemma pipeline_lr_history:
  "lr_history (fst (train_val_pipeline p w root_ckpt_dir d))
     = lr_history (fst (training_loop p w root_ckpt_dir [0..<epochs p] (init_state p d)))"
  by (simp add: lr_history_def pipeline_fields)

text \<open>
  Claim C6, for the scheduler as the spec describes it. In every run whose reduce factor
  is between \<open>0\<close> and \<open>1\<close> and whose initial learning rate is not negative, however the run
  ends, the writer was given one learning rate for each epoch that ran, and the learning
  rate of each epoch is at most the one of the epoch before.
\<close>

theorem learning_rate_never_rises:
  assumes "0 \<le> init_lr p" and "0 \<le> lr_reduce_factor p" and "lr_reduce_factor p \<le> 1"
  shows "length (lr_history (fst (train_val_pipeline p w root_ckpt_dir d)))
           = completed (fst (train_val_pipeline p w root_ckpt_dir d))
       \<and> (\<forall>e. Suc e < completed (fst (train_val_pipeline p w root_ckpt_dir d)) \<longrightarrow>
             lr_history (fst (train_val_pipeline p w root_ckpt_dir d)) ! Suc e
               \<le> lr_history (fst (train_val_pipeline p w root_ckpt_dir d)) ! e)"
proof -
  let ?st = "fst (training_loop p w root_ckpt_dir [0..<epochs p] (init_state p d))"
  have "sorted_wrt (\<ge>) (lr_history ?st) \<and> length (lr_history ?st) = completed ?st"
    by (rule training_loop_lr_inv [OF assms(2,3)])
      (simp_all add: assms(1) lr_history_def init_state_def completed_def)
  then have s: "sorted_wrt (\<ge>) (lr_history ?st)" and l: "length (lr_history ?st) = completed ?st"
    by simp_all
  have "lr_history ?st ! Suc e \<le> lr_history ?st ! e" if "Suc e < completed ?st" for e
    using sorted_wrt_nth_less [OF s, of e "Suc e"] that l by simp
  with l show ?thesis
    by (simp add: pipeline_lr_history pipeline_fields)
qed


lemma demo_two_epochs:
  "completed (fst (train_val_pipeline ((main_params 128)\<lparr>epochs := 2, lr_schedule_patience := 0\<rparr>)
       demo_world ''ckpt'' fresh_dir)) = 2"
  "lr_history (fst (train_val_pipeline ((main_params 128)\<lparr>epochs := 2, lr_schedule_patience := 0\<rparr>)
       demo_world ''ckpt'' fresh_dir)) = [1 / 1000, 1 / 2000]"
proof -
  let ?p = "(main_params 128)\<lparr>epochs := 2, lr_schedule_patience := 0\<rparr>"
  let ?st0 = "init_state ?p fresh_dir"
  let ?b0 = "epoch_body ?p demo_world ''ckpt'' 0 ?st0"
  let ?b1 = "epoch_body ?p demo_world ''ckpt'' (Suc 0) (fst ?b0)"
  have p: "min_lr ?p = 1 / 100000" "max_time ?p = 48" "lr_reduce_factor ?p = 1 / 2"
    "lr_schedule_patience ?p = 0" "init_lr ?p = 1 / 1000"
    by (simp_all add: main_params_def)
  have u: "[0..<epochs ?p] = [0, Suc 0]"
    by (simp add: main_params_def upt_rec)
  have h0: "lr_history ?st0 = []" by (simp add: lr_history_def)
  have b0: "snd ?b0 = None"
    "sched (fst ?b0) = \<lparr>best_loss = Some 2, bad_epochs = 0, learning_rate = 1 / 1000\<rparr>"
    "completed (fst ?b0) = 1"
    by (simp_all add: epoch_body_snd epoch_body_sched epoch_body_completed
        save_checkpoint_first fresh_dir_def observe_def p)
  have b1: "snd ?b1 = None"
    "sched (fst ?b1) = \<lparr>best_loss = Some 2, bad_epochs = 0, learning_rate = 1 / 2000\<rparr>"
    "completed (fst ?b1) = 2"
    by (simp_all add: epoch_body_snd epoch_body_ckpts epoch_body_sched epoch_body_completed
        save_checkpoint_first save_checkpoint_second fresh_dir_def observe_def p)
  have h: "lr_history (fst ?b1) = [1 / 1000, 1 / 2000]"
    by (simp add: epoch_body_lr_history [of ?p demo_world "''ckpt''" "Suc 0"]
        epoch_body_lr_history [of ?p demo_world "''ckpt''" 0] b0 b1 h0)
  have t: "\<not> t_check (clock demo_world 0) - t0 demo_world > max_time ?p * 3600"
    "\<not> t_check (clock demo_world (Suc 0)) - t0 demo_world > max_time ?p * 3600"
    by (simp_all add: p)
  have l: "training_loop ?p demo_world ''ckpt'' [0..<epochs ?p] ?st0 = (fst ?b1, Stopped MaxEpochs)"
    unfolding u training_loop_step [of _ _ _ 0] training_loop_step [of _ _ _ "Suc 0"]
    using t by (simp add: Let_def b0 b1 p)
  show "completed (fst (train_val_pipeline ?p demo_world ''ckpt'' fresh_dir)) = 2"
    unfolding pipeline_fields l by (simp add: b1)
  show "lr_history (fst (train_val_pipeline ?p demo_world ''ckpt'' fresh_dir)) = [1 / 1000, 1 / 2000]"
    unfolding pipeline_lr_history l by (simp add: h)
qed

theorem learning_rate_never_rises_witness:
  "lr_history (fst (train_val_pipeline ((main_params 128)\<lparr>epochs := 2, lr_schedule_patience := 0\<rparr>)
       demo_world ''ckpt'' fresh_dir)) ! Suc 0
     \<le> lr_history (fst (train_val_pipeline ((main_params 128)\<lparr>epochs := 2, lr_schedule_patience := 0\<rparr>)
       demo_world ''ckpt'' fresh_dir)) ! 0
   \<and> length (lr_history (fst (train_val_pipeline
       ((main_params 128)\<lparr>epochs := 2, lr_schedule_patience := 0\<rparr>) demo_world ''ckpt'' fresh_dir))) = 2"
proof -
  let ?p = "(main_params 128)\<lparr>epochs := 2, lr_schedule_patience := 0\<rparr>"
  have a: "0 \<le> init_lr ?p" and b: "0 \<le> lr_reduce_factor ?p" and c: "lr_reduce_factor ?p \<le> 1"
    by (simp_all add: main_params_def)
  from learning_rate_never_rises [OF a b c, of demo_world "''ckpt''" fresh_dir]
  show ?thesis
    unfolding demo_two_epochs(1) by simp
qed

section \<open>A validation loss that never improves\<close>

lemma observe_first:
  "observe (lr_reduce_factor p) (lr_schedule_patience p)
     \<lparr>best_loss = None, bad_epochs = 0, learning_rate = init_lr p\<rparr> v0 = sched_after p v0 0"
  by (simp add: observe_def sched_after_def)

lemma observe_never_improving:
  assumes "\<not> v < v0"
  shows "observe (lr_reduce_factor p) (lr_schedule_patience p) (sched_after p v0 j) v
       = sched_after p v0 (Suc j)"
proof (cases "j mod Suc (lr_schedule_patience p) = lr_schedule_patience p")
  case True
  with assms show ?thesis
    by (simp add: observe_def sched_after_def mod_Suc div_Suc)
next
  case False
  moreover have "j mod Suc (lr_schedule_patience p) < Suc (lr_schedule_patience p)"
    by (rule mod_less_divisor) simp
  ultimately have "j mod Suc (lr_schedule_patience p) < lr_schedule_patience p"
    by (simp only: less_Suc_eq) blast
  with assms False show ?thesis
    by (simp add: observe_def sched_after_def mod_Suc div_Suc)
qed

lemma floor_iff: "(1 / 1000 :: real) * (1 / 2) ^ q < 1 / 100000 \<longleftrightarrow> 7 \<le> q"
proof
  assume "7 \<le> q"
  then have "(1 / 2 :: real) ^ q \<le> (1 / 2) ^ 7" by (intro power_decreasing) simp_all
  moreover have "(1 / 2 :: real) ^ 7 = 1 / 128" by (simp add: power_one_over)
  ultimately have "(1 / 2 :: real) ^ q \<le> 1 / 128" by simp
  then show "(1 / 1000 :: real) * (1 / 2) ^ q < 1 / 100000" by linarith
next
  assume a: "(1 / 1000 :: real) * (1 / 2) ^ q < 1 / 100000"
  show "7 \<le> q"
  proof (rule ccontr)
    assume "\<not> 7 \<le> q"
    then have "q \<le> 6" by simp
    then have "(1 / 2 :: real) ^ 6 \<le> (1 / 2) ^ q" by (intro power_decreasing) simp_all
    moreover have "(1 / 2 :: real) ^ 6 = 1 / 64" by (simp add: power_one_over)
    ultimately have "1 / 64 \<le> (1 / 2 :: real) ^ q" by simp
    with a show False by linarith
  qed
qed

lemma sched_after_floor:
  assumes "init_lr p = 1 / 1000" "lr_reduce_factor p = 1 / 2" "min_lr p = 1 / 100000"
  shows "learning_rate (sched_after p v0 j) < min_lr p \<longleftrightarrow> 7 * (lr_schedule_patience p + 1) \<le> j"
proof -
  have "learning_rate (sched_after p v0 j)
          = (1 / 1000) * (1 / 2) ^ (j div (lr_schedule_patience p + 1))"
    by (simp add: sched_after_def assms)
  then show ?thesis
    unfolding assms(3) by (simp only: floor_iff) (simp add: less_eq_div_iff_mult_less_eq)
qed


text \<open>The loop from any epoch \<open>k\<close> up to the seventh reduction, in a new run directory:
  every pass succeeds and leaves the scheduler in the state \<open>sched_after\<close>; the floor is
  first passed at the epoch \<open>7 * (patience + 1)\<close>.\<close>

lemma never_improving_loop:
  assumes par: "init_lr p = 1 / 1000" "lr_reduce_factor p = 1 / 2" "min_lr p = 1 / 100000"
    and stp: "\<And>e. e \<le> 7 * (lr_schedule_patience p + 1) \<Longrightarrow> steps w e = Inr (ms e)"
    and nev: "\<And>e. e \<le> 7 * (lr_schedule_patience p + 1) \<Longrightarrow> \<not> val_loss (ms e) < val_loss (ms 0)"
    and tim: "\<And>e. e < 7 * (lr_schedule_patience p + 1) \<Longrightarrow>
                \<not> t_check (clock w e) - t0 w > max_time p * 3600"
    and len: "7 * (lr_schedule_patience p + 1) < n"
  shows "k \<le> 7 * (lr_schedule_patience p + 1) \<Longrightarrow> completed st = k \<Longrightarrow>
     sched st = (if k = 0 then \<lparr>best_loss = None, bad_epochs = 0, learning_rate = init_lr p\<rparr>
                 else sched_after p (val_loss (ms 0)) (k - 1)) \<Longrightarrow>
     saves root_ckpt_dir k fresh_dir = (ckpts st, None) \<Longrightarrow>
     snd (training_loop p w root_ckpt_dir [k..<n] st) = Stopped Converged
     \<and> completed (fst (training_loop p w root_ckpt_dir [k..<n] st))
         = Suc (7 * (lr_schedule_patience p + 1))
     \<and> sched (fst (training_loop p w root_ckpt_dir [k..<n] st))
         = sched_after p (val_loss (ms 0)) (7 * (lr_schedule_patience p + 1))"
proof (induction "7 * (lr_schedule_patience p + 1) - k" arbitrary: k st)
  case 0
  then have kN: "k = 7 * (lr_schedule_patience p + 1)" by simp
  note s = stp [OF "0.prems"(1)]
  let ?b = "epoch_body p w root_ckpt_dir k st"
  from len kN have u: "[k..<n] = k # [Suc k..<n]" by (simp add: upt_conv_Cons)
  have sv: "saves root_ckpt_dir (Suc k) fresh_dir = save_checkpoint root_ckpt_dir k (ckpts st)"
    by (simp add: "0.prems"(4))
  have "snd (saves root_ckpt_dir (Suc k) fresh_dir) = None"
    unfolding saves_fresh by simp
  with sv have ok: "snd ?b = None"
    by (simp add: epoch_body_snd s)
  have sc: "sched (fst ?b) = sched_after p (val_loss (ms 0)) k"
  proof (cases "k = 0")
    case True
    with "0.prems"(1,3) s show ?thesis
      by (simp add: epoch_body_sched observe_first)
  next
    case False
    then have "Suc (k - 1) = k" by simp
    with False "0.prems"(1,3) observe_never_improving [OF nev [OF "0.prems"(1)], of p "k - 1"]
    show ?thesis
      by (simp add: epoch_body_sched s)
  qed
  have fl: "learning_rate (sched (fst ?b)) < min_lr p"
    unfolding sc sched_after_floor [OF par] using kN by simp
  have c: "completed (fst ?b) = Suc k"
    using ok "0.prems"(2) by (simp add: epoch_body_completed)
  show ?case
    unfolding u training_loop_step using ok fl c sc kN by (simp add: Let_def)
next
  case (Suc m)
  then have kN: "k < 7 * (lr_schedule_patience p + 1)" by simp
  note s = stp [OF Suc.prems(1)]
  let ?b = "epoch_body p w root_ckpt_dir k st"
  from len kN have u: "[k..<n] = k # [Suc k..<n]" by (simp add: upt_conv_Cons)
  have sv: "saves root_ckpt_dir (Suc k) fresh_dir = save_checkpoint root_ckpt_dir k (ckpts st)"
    by (simp add: Suc.prems(4))
  have sn: "snd (saves root_ckpt_dir (Suc k) fresh_dir) = None"
    unfolding saves_fresh by simp
  with sv have ok: "snd ?b = None"
    by (simp add: epoch_body_snd s)
  have sc: "sched (fst ?b) = sched_after p (val_loss (ms 0)) k"
  proof (cases "k = 0")
    case True
    with Suc.prems(1,3) s show ?thesis
      by (simp add: epoch_body_sched observe_first)
  next
    case False
    then have "Suc (k - 1) = k" by simp
    with False Suc.prems(1,3) observe_never_improving [OF nev [OF Suc.prems(1)], of p "k - 1"]
    show ?thesis
      by (simp add: epoch_body_sched s)
  qed
  have fl: "\<not> learning_rate (sched (fst ?b)) < min_lr p"
    unfolding sc sched_after_floor [OF par] using kN by simp
  have c: "completed (fst ?b) = Suc k"
    using ok Suc.prems(2) by (simp add: epoch_body_completed)
  have ck: "saves root_ckpt_dir (Suc k) fresh_dir = (ckpts (fst ?b), None)"
    using sv sn by (simp add: epoch_body_ckpts s prod_eq_iff)
  have go: "training_loop p w root_ckpt_dir [k..<n] st
              = training_loop p w root_ckpt_dir [Suc k..<n] (fst ?b)"
    unfolding u training_loop_step using ok fl tim [OF kN] by (simp add: Let_def)
  from Suc.hyps(2) have m: "m = 7 * (lr_schedule_patience p + 1) - Suc k" by simp
  from kN have k': "Suc k \<le> 7 * (lr_schedule_patience p + 1)" by simp
  have sc': "sched (fst ?b) = (if Suc k = 0 then \<lparr>best_loss = None, bad_epochs = 0, learning_rate = init_lr p\<rparr>
                 else sched_after p (val_loss (ms 0)) (Suc k - 1))"
    using sc by simp
  from Suc.hyps(1) [OF m k' c sc' ck] show ?case
    unfolding go .
qed


lemma sched_after_seventh:
  assumes "init_lr p = 1 / 1000" "lr_reduce_factor p = 1 / 2"
  shows "learning_rate (sched_after p v0 (7 * (lr_schedule_patience p + 1))) = 1 / 128000"
proof -
  have "7 * (lr_schedule_patience p + 1) div (lr_schedule_patience p + 1) = 7"
    by (rule nonzero_mult_div_cancel_right) simp
  moreover have "(1 / 1000 :: real) * (1 / 2) ^ 7 = 1 / 128000"
    by (simp add: power_one_over)
  ultimately show ?thesis
    by (simp only: sched_after_def sched_state.simps assms)
qed

text \<open>
  Claim C8, as the code has it. With \<^verbatim>\<open>min_lr\<close> \<open>1e-5\<close>, initial learning rate \<open>0.001\<close>
  and reduce factor \<open>0.5\<close>, in a new run directory, when no validation loss is below the
  first one and neither an exception nor the wall clock ends the run before, the loop
  leaves by the learning-rate floor at the epoch \<open>7 * (patience + 1)\<close>, that is after
  \<open>7 * (patience + 1) + 1\<close> epochs, the first epoch being the one that sets the best loss;
  the learning rate is then \<open>0.001 * 0.5 ^ 7\<close>. That is within eight epochs when the
  patience is \<open>0\<close>.
\<close>

theorem floor_after_seven_reductions:
  assumes "init_lr p = 1 / 1000" and "lr_reduce_factor p = 1 / 2" and "min_lr p = 1 / 100000"
    and "\<forall>e \<le> 7 * (lr_schedule_patience p + 1). steps w e = Inr (ms e)"
    and "\<forall>e \<le> 7 * (lr_schedule_patience p + 1). \<not> val_loss (ms e) < val_loss (ms 0)"
    and "\<forall>e < 7 * (lr_schedule_patience p + 1). \<not> t_check (clock w e) - t0 w > max_time p * 3600"
    and "7 * (lr_schedule_patience p + 1) < epochs p"
  shows "snd (training_loop p w root_ckpt_dir [0..<epochs p] (init_state p fresh_dir))
           = Stopped Converged
       \<and> completed (fst (training_loop p w root_ckpt_dir [0..<epochs p] (init_state p fresh_dir)))
           = 7 * (lr_schedule_patience p + 1) + 1
       \<and> learning_rate (sched (fst (training_loop p w root_ckpt_dir [0..<epochs p]
            (init_state p fresh_dir)))) = 1 / 128000"
proof -
  have "snd (training_loop p w root_ckpt_dir [0..<epochs p] (init_state p fresh_dir))
           = Stopped Converged
       \<and> completed (fst (training_loop p w root_ckpt_dir [0..<epochs p] (init_state p fresh_dir)))
           = Suc (7 * (lr_schedule_patience p + 1))
       \<and> sched (fst (training_loop p w root_ckpt_dir [0..<epochs p] (init_state p fresh_dir)))
           = sched_after p (val_loss (ms 0)) (7 * (lr_schedule_patience p + 1))"
    by (rule never_improving_loop [where ms = ms, OF assms(1-3) _ _ _ assms(7)])
      (use assms(4-6) in simp_all)
  then have 1: "snd (training_loop p w root_ckpt_dir [0..<epochs p] (init_state p fresh_dir))
           = Stopped Converged"
    and 2: "completed (fst (training_loop p w root_ckpt_dir [0..<epochs p] (init_state p fresh_dir)))
           = Suc (7 * (lr_schedule_patience p + 1))"
    and 3: "sched (fst (training_loop p w root_ckpt_dir [0..<epochs p] (init_state p fresh_dir)))
           = sched_after p (val_loss (ms 0)) (7 * (lr_schedule_patience p + 1))"
    by blast+
  have "learning_rate (sched (fst (training_loop p w root_ckpt_dir [0..<epochs p]
            (init_state p fresh_dir)))) = 1 / 128000"
    by (simp only: 3 sched_after_seventh [OF assms(1,2)])
  with 1 2 show ?thesis by simp
qed

theorem floor_after_seven_reductions_witness:
  "snd (training_loop ((main_params 128)\<lparr>lr_schedule_patience := 0\<rparr>) demo_world ''ckpt''
          [0..<epochs ((main_params 128)\<lparr>lr_schedule_patience := 0\<rparr>)]
          (init_state ((main_params 128)\<lparr>lr_schedule_patience := 0\<rparr>) fresh_dir))
     = Stopped Converged
   \<and> completed (fst (training_loop ((main_params 128)\<lparr>lr_schedule_patience := 0\<rparr>) demo_world ''ckpt''
          [0..<epochs ((main_params 128)\<lparr>lr_schedule_patience := 0\<rparr>)]
          (init_state ((main_params 128)\<lparr>lr_schedule_patience := 0\<rparr>) fresh_dir))) = 8"
proof -
  let ?p = "(main_params 128)\<lparr>lr_schedule_patience := 0\<rparr>"
  let ?ms = "\<lambda>e::nat. \<lparr>train_loss = 1, train_acc = 1 / 2, val_loss = 2, val_acc = 1 / 4,
                        test_loss = 7, test_acc = 9 :: real\<rparr>"
  have a: "init_lr ?p = 1 / 1000" and b: "lr_reduce_factor ?p = 1 / 2"
    and c: "min_lr ?p = 1 / 100000"
    by (simp_all add: main_params_def)
  have d: "\<forall>e \<le> 7 * (lr_schedule_patience ?p + 1). steps demo_world e = Inr (?ms e)" by simp
  have e: "\<forall>e \<le> 7 * (lr_schedule_patience ?p + 1). \<not> val_loss (?ms e) < val_loss (?ms 0)"
    by simp
  have f: "\<forall>e < 7 * (lr_schedule_patience ?p + 1).
             \<not> t_check (clock demo_world e) - t0 demo_world > max_time ?p * 3600"
    by (simp add: main_params_def)
  have g: "7 * (lr_schedule_patience ?p + 1) < epochs ?p" by (simp add: main_params_def)
  from floor_after_seven_reductions [OF a b c d e f g, of "''ckpt''"]
  show ?thesis by simp
qed

text \<open>The claim as stated fails on the parameters \<^verbatim>\<open>main\<close> sets, whose patience is
  \<open>5\<close>: with a validation loss that never improves the run stops by the learning-rate
  floor, but only after \<open>43\<close> epochs.\<close>

theorem floor_not_by_epoch_eight:
  "snd (train_val_pipeline (main_params 128) demo_world ''ckpt'' fresh_dir) = Stopped Converged
   \<and> completed (fst (train_val_pipeline (main_params 128) demo_world ''ckpt'' fresh_dir)) = 43"
proof -
  let ?p = "main_params 128"
  let ?ms = "\<lambda>e::nat. \<lparr>train_loss = 1, train_acc = 1 / 2, val_loss = 2, val_acc = 1 / 4,
                        test_loss = 7, test_acc = 9 :: real\<rparr>"
  have a: "init_lr ?p = 1 / 1000" and b: "lr_reduce_factor ?p = 1 / 2"
    and c: "min_lr ?p = 1 / 100000"
    by (simp_all add: main_params_def)
  have n: "7 * (lr_schedule_patience ?p + 1) = 42" by (simp add: main_params_def)
  have g: "7 * (lr_schedule_patience ?p + 1) < epochs ?p" by (simp add: main_params_def)
  have f: "\<not> t_check (clock demo_world e) - t0 demo_world > max_time ?p * 3600"
    if "e < 7 * (lr_schedule_patience ?p + 1)" for e
  proof -
    from that n have "real e < 42" by simp
    then show ?thesis by (simp add: main_params_def)
  qed
  have l: "snd (training_loop ?p demo_world ''ckpt'' [0..<epochs ?p] (init_state ?p fresh_dir))
           = Stopped Converged
       \<and> completed (fst (training_loop ?p demo_world ''ckpt'' [0..<epochs ?p] (init_state ?p fresh_dir)))
           = Suc (7 * (lr_schedule_patience ?p + 1))
       \<and> sched (fst (training_loop ?p demo_world ''ckpt'' [0..<epochs ?p] (init_state ?p fresh_dir)))
           = sched_after ?p (val_loss (?ms 0)) (7 * (lr_schedule_patience ?p + 1))"
    by (rule never_improving_loop [where ms = ?ms, OF a b c _ _ f g]) simp_all
  have fe: "final_evals demo_world = Inr (9, 1 / 2)" by (simp add: demo_world_def)
  from l show ?thesis
    unfolding pipeline_outcome pipeline_fields n by (simp add: fe)
qed

end
